theory Spec2Isabelle
  imports Main "HOL-Library.Word" "HOL-Library.Signed_Division"
begin

unbundle bit_operations_syntax

section \<open>Machine types\<close>

text \<open>
  The interpreter is built for a 32-bit target: the handlers apply \<open>std::bit_cast\<close>
  between \<open>usize\<close>, \<open>u32\<close>, \<open>i32\<close> and object pointers, which only compiles when all of
  them have the same size. Every word of the value stack is therefore a 32-bit word, and
  \<open>i32\<close> is the same word read through \<open>sint\<close>.
\<close>

type_synonym u8 = "8 word"
type_synonym u32 = "32 word"
type_synonym i32 = "32 word"
type_synonym usize = "32 word"

text \<open>
  What the C++ leaves undefined or aborts on is a value of its own, so that no run of the
  model silently continues after it: an access outside an array or buffer, the host trap
  of an integer division by zero, and \<open>std::terminate\<close> (the macro \<open>FAIL()\<close>).
\<close>

datatype fault = OutOfBounds | DivisionTrap | Terminated

fun bindF :: "fault + 'a \<Rightarrow> ('a \<Rightarrow> fault + 'b) \<Rightarrow> fault + 'b" where
  "bindF (Inl e) f = Inl e"
| "bindF (Inr x) f = f x"

section \<open>Value encoding\<close>

text \<open>
  Modelled from the spec: the macros \<open>BOX\<close> and \<open>UNBOX\<close> come from the runtime header
  \<open>runtime_common.h\<close>, which is not among the sources. The specification gives
  \<open>BOX(n) = (n << 1) | 1\<close> and \<open>UNBOX(w) = w >> 1\<close> with an arithmetic shift, both on the
  native \<open>int\<close>.
\<close>

definition BOX :: "i32 \<Rightarrow> i32" where
  "BOX n = push_bit 1 n OR 1"

definition UNBOX :: "i32 \<Rightarrow> i32" where
  "UNBOX w = signed_drop_bit 1 w"

text \<open>\<open>satAdd\<close> of Utils.hpp.\<close>

definition satAdd :: "u32 \<Rightarrow> u32 \<Rightarrow> u32" where
  "satAdd lhs rhs = (let res = lhs + rhs in if res < lhs then - 1 else res)"

section \<open>The value stack\<close>

text \<open>
  \<open>innerData\<close> is a \<open>std::array\<close> of \<open>MAX_STACK_SIZE\<close> words. A pointer into it is the
  index of the slot it points at (an \<open>int\<close>, since the top pointer may stand one slot
  before the array); the array's cells are a function of that index, and every read or
  write says what happens outside \<open>0 .. MAX_STACK_SIZE - 1\<close>: the access is a fault.
  \<open>innerDataAddr\<close> is the machine address of slot 0; it is only used where the code
  stores a slot pointer as a word, or reads one back. The two globals \<open>__gc_stack_top\<close>
  and \<open>__gc_stack_bottom\<close> of the runtime are kept with the stack. The member \<open>begin\<close> is
  \<open>begin_ptr\<close> here and the function \<open>top\<close> is \<open>top'\<close>, since Isabelle reserves both
  names.
\<close>

definition MAX_STACK_SIZE :: int where
  "MAX_STACK_SIZE = 100000"

record Stack =
  innerData :: "int \<Rightarrow> usize"
  innerDataAddr :: usize
  gc_stack_top :: int
  gc_stack_bottom :: int
  bp :: int
  nArgs :: u32
  nLocals :: u32
  begin_ptr :: int
  globalsSize :: u32

definition in_array :: "int \<Rightarrow> bool" where
  "in_array i = (0 \<le> i \<and> i < MAX_STACK_SIZE)"

definition ptr_to_word :: "Stack \<Rightarrow> int \<Rightarrow> usize" where
  "ptr_to_word s p = innerDataAddr s + 4 * word_of_int p"

definition word_to_ptr :: "Stack \<Rightarrow> usize \<Rightarrow> int" where
  "word_to_ptr s w = sint (w - innerDataAddr s) div 4"

definition read_slot :: "int \<Rightarrow> Stack \<Rightarrow> fault + usize" where
  "read_slot i s = (if in_array i then Inr (innerData s i) else Inl OutOfBounds)"

definition write_slot :: "int \<Rightarrow> usize \<Rightarrow> Stack \<Rightarrow> fault + Stack" where
  "write_slot i v s =
     (if in_array i then Inr (s\<lparr>innerData := (innerData s)(i := v)\<rparr>) else Inl OutOfBounds)"

text \<open>\<open>*(__gc_stack_top--) = value\<close>\<close>

definition push :: "usize \<Rightarrow> Stack \<Rightarrow> fault + Stack" where
  "push v s =
     bindF (write_slot (gc_stack_top s) v s)
       (\<lambda>s'. Inr (s'\<lparr>gc_stack_top := gc_stack_top s' - 1\<rparr>))"

text \<open>\<open>return *(++__gc_stack_top)\<close>\<close>

definition pop :: "Stack \<Rightarrow> fault + (usize \<times> Stack)" where
  "pop s =
     (let s' = s\<lparr>gc_stack_top := gc_stack_top s + 1\<rparr>
      in bindF (read_slot (gc_stack_top s') s') (\<lambda>v. Inr (v, s')))"

text \<open>\<open>return *(__gc_stack_top + 1)\<close>\<close>

definition top' :: "Stack \<Rightarrow> fault + usize" where
  "top' s = read_slot (gc_stack_top s + 1) s"

text \<open>
  The two predicates cast a pointer difference (counted in slots) to \<open>usize\<close> and compare
  it with \<open>n\<close>. \<open>enoughToPush\<close> subtracts the top pointer from \<open>innerData.data()\<close>, the
  address of slot 0, as the source does.
\<close>

definition enoughToPop :: "usize \<Rightarrow> Stack \<Rightarrow> bool" where
  "enoughToPop n s = (n \<le> (word_of_int (begin_ptr s - gc_stack_top s) :: usize))"

definition enoughToPush :: "usize \<Rightarrow> Stack \<Rightarrow> bool" where
  "enoughToPush n s = (n \<le> (word_of_int (0 - gc_stack_top s) :: usize))"

text \<open>
  The constructor. The array is not initialised by the source, so its first contents
  \<open>mem\<close> are arbitrary; \<open>addr\<close> is where the array lives.
\<close>

definition Stack_ctor :: "(int \<Rightarrow> usize) \<Rightarrow> usize \<Rightarrow> u32 \<Rightarrow> fault + Stack" where
  "Stack_ctor mem addr globalsSizeWords =
     (let bottom = MAX_STACK_SIZE - 1;
          t = bottom - uint globalsSizeWords;
          s = \<lparr>innerData = mem, innerDataAddr = addr, gc_stack_top = t,
               gc_stack_bottom = bottom, bp = t, nArgs = 2, nLocals = 0,
               begin_ptr = t, globalsSize = globalsSizeWords\<rparr>
      in bindF (push (BOX 0) s) (push 0))"

text \<open>
  \<open>VariableType\<close> is an enum over \<open>u8\<close>; the capture descriptors of CLOSURE are read
  from the bytecode as raw bytes, so any byte can arrive in \<open>getReference\<close>, whose
  \<open>switch\<close> then matches no case and falls to the final \<open>return std::nullopt\<close>.
\<close>

type_synonym VariableType = u8

definition Global :: VariableType where "Global = 0"
definition Local :: VariableType where "Local = 1"
definition Argument :: VariableType where "Argument = 2"
definition Captured :: VariableType where "Captured = 3"

text \<open>
  A reference is a pointer to a word: a slot of the stack array, or a cell of a runtime
  object. The closure pointer read for a captured variable is taken to point into the
  runtime heap; \<open>closure + 1 + index\<close> is pointer arithmetic on words of 4 bytes.
\<close>

datatype ref = SlotRef int | HeapRef usize

definition getReference :: "u32 \<Rightarrow> VariableType \<Rightarrow> Stack \<Rightarrow> fault + ref option" where
  "getReference index kind s =
     (if kind = Global then
        (if globalsSize s < index then Inr None
         else Inr (Some (SlotRef (begin_ptr s + 1 + uint index))))
      else if kind = Local then
        (if nLocals s \<le> index then Inr None
         else Inr (Some (SlotRef (bp s - 1 - uint index))))
      else if kind = Argument then
        (if nArgs s \<le> index then Inr None
         else Inr (Some (SlotRef (bp s + 3 + uint (nArgs s) - uint index))))
      else if kind = Captured then
        bindF (read_slot (bp s + 3 + uint (nArgs s) + 1) s)
          (\<lambda>closure. Inr (Some (HeapRef (closure + 4 * 1 + 4 * index))))
      else Inr None)"

definition stackBegin :: "Stack \<Rightarrow> int" where
  "stackBegin s = begin_ptr s"

text \<open>\<open>std::fill(lo, hi, v)\<close> on slot pointers: the slots from \<open>lo\<close> up to, not including, \<open>hi\<close>.\<close>

definition fill_slots :: "int \<Rightarrow> int \<Rightarrow> usize \<Rightarrow> Stack \<Rightarrow> fault + Stack" where
  "fill_slots lo hi v s =
     (if lo < hi \<and> (lo < 0 \<or> MAX_STACK_SIZE < hi) then Inl OutOfBounds
      else Inr (s\<lparr>innerData := (\<lambda>i. if lo \<le> i \<and> i < hi then v else innerData s i)\<rparr>))"

definition prologue :: "bool \<Rightarrow> u32 \<Rightarrow> u32 \<Rightarrow> Stack \<Rightarrow> fault + (bool \<times> Stack)" where
  "prologue beginInClosure newNArgs newNLocals s =
     (if \<not> enoughToPush (satAdd 4 newNLocals) s then Inr (False, s)
      else
        bindF (push (BOX (nArgs s)) s) (\<lambda>s.
        bindF (push (BOX (nLocals s)) s) (\<lambda>s.
        bindF (push (ptr_to_word s (bp s)) s) (\<lambda>s.
          let s = s\<lparr>nArgs := newNArgs, nLocals := newNLocals, bp := gc_stack_top s + 1\<rparr>;
              s = s\<lparr>gc_stack_top := gc_stack_top s - uint (newNLocals + 1)\<rparr>
          in bindF (fill_slots (gc_stack_top s) (gc_stack_top s + uint newNLocals + 2) (BOX 0) s)
               (\<lambda>s. Inr (True, s))))))"

text \<open>The result is the return address as a word; 0 is \<open>nullptr\<close>.\<close>

definition epilogue :: "bool \<Rightarrow> Stack \<Rightarrow> fault + (usize \<times> Stack)" where
  "epilogue isClosure s =
     (let valuesToPop = 5 + (if isClosure then 1 else 0)
      in if \<not> enoughToPop (satAdd valuesToPop (nArgs s)) s then Inr (0, s)
      else
        bindF (pop s) (\<lambda>(retval, s).
          let nArgsOld = nArgs s;
              s = s\<lparr>gc_stack_top := bp s - 1\<rparr>
          in
        bindF (pop s) (\<lambda>(w, s). let s = s\<lparr>bp := word_to_ptr s w\<rparr> in
        bindF (pop s) (\<lambda>(w, s). let s = s\<lparr>nLocals := UNBOX w\<rparr> in
        bindF (pop s) (\<lambda>(w, s). let s = s\<lparr>nArgs := UNBOX w\<rparr> in
        bindF (pop s) (\<lambda>(returnAddress, s).
          let s = s\<lparr>gc_stack_top := gc_stack_top s + uint nArgsOld\<rparr> in
        bindF (if isClosure then bindF (pop s) (\<lambda>(w, s). Inr s) else Inr s) (\<lambda>s.
        bindF (push retval s) (\<lambda>s. Inr (returnAddress, s)))))))))"

text \<open>
  \<open>closureRelativeAddr\<close> reads the closure pointer lying under \<open>args\<close> argument words and
  returns the first cell of the object it points to; \<open>heap\<close> gives the cells of runtime
  objects by address.
\<close>

definition closureRelativeAddr :: "(usize \<Rightarrow> usize) \<Rightarrow> u32 \<Rightarrow> Stack \<Rightarrow> fault + u32" where
  "closureRelativeAddr heap args s =
     bindF (read_slot (gc_stack_top s + 1 + uint args) s) (\<lambda>p. Inr (heap p))"

section \<open>The runtime bridge\<close>

text \<open>
  The heap, the collector and the helpers of the Lama runtime are external. One
  instruction makes at most one call to each helper, so for one step the runtime is a
  record of functions from the call's arguments to its result. The layout of the runtime's
  \<open>data\<close> and \<open>sexp\<close> structures is declared in \<open>runtime_common.h\<close>, which is not among
  the sources: the addresses of their members are taken from the same record. What the
  helpers do to the runtime's memory is not modelled; the cells the handlers themselves
  write are kept in \<open>heap\<close>, a store of words by address.
\<close>

record Runtime =
  Lread :: i32
  Bstring :: "usize \<Rightarrow> usize"
  Llength :: "usize \<Rightarrow> i32"
  Belem :: "usize \<Rightarrow> i32 \<Rightarrow> usize"
  Bsta :: "usize \<Rightarrow> i32 \<Rightarrow> usize \<Rightarrow> usize"
  LtagHash :: "usize \<Rightarrow> i32"
  Btag :: "usize \<Rightarrow> i32 \<Rightarrow> i32 \<Rightarrow> i32"
  Lstring :: "usize \<Rightarrow> usize"
  Bstring_patt :: "usize \<Rightarrow> usize \<Rightarrow> i32"
  Bstring_tag_patt :: "usize \<Rightarrow> i32"
  Barray_tag_patt :: "usize \<Rightarrow> i32"
  Bsexp_tag_patt :: "usize \<Rightarrow> i32"
  Bboxed_patt :: "usize \<Rightarrow> i32"
  Bunboxed_patt :: "usize \<Rightarrow> i32"
  Bclosure_tag_patt :: "usize \<Rightarrow> i32"
  Barray_patt :: "usize \<Rightarrow> i32 \<Rightarrow> i32"
  alloc_array :: "u32 \<Rightarrow> usize"
  alloc_sexp :: "u32 \<Rightarrow> usize"
  alloc_closure :: "u32 \<Rightarrow> usize"
  data_contents :: "usize \<Rightarrow> usize"
  sexp_tag :: "usize \<Rightarrow> usize"
  sexp_contents :: "usize \<Rightarrow> usize"

section \<open>The bytefile\<close>

text \<open>
  The file is read into one buffer: \<open>rawData\<close> are its bytes and \<open>rawAddr\<close> the address
  it was allocated at. A \<open>std::span\<close> is the address of its first element and its number
  of elements; the instruction pointer is an address too, and 0 is \<open>nullptr\<close>. A byte is
  read through its address, and a read outside the buffer is a fault.
\<close>

record span =
  span_data :: usize
  span_size :: usize

record Bytefile =
  strPool :: span
  publicSymbols :: span
  bytecode :: span
  globalAreaSize :: u32
  ip :: usize
  fileLine :: u32
  prevIP :: usize
  rawData :: "u8 list"
  rawAddr :: usize

definition byte_at :: "Bytefile \<Rightarrow> usize \<Rightarrow> fault + u8" where
  "byte_at bf p =
     (let k = unat (p - rawAddr bf)
      in if k < length (rawData bf) then Inr (rawData bf ! k) else Inl OutOfBounds)"

text \<open>\<open>copyValues\<close> into a 32-bit value: four bytes, the lowest first.\<close>

definition le32 :: "u8 \<Rightarrow> u8 \<Rightarrow> u8 \<Rightarrow> u8 \<Rightarrow> u32" where
  "le32 b0 b1 b2 b3 =
     ucast b0 OR push_bit 8 (ucast b1) OR push_bit 16 (ucast b2) OR push_bit 24 (ucast b3)"

definition read_u32 :: "Bytefile \<Rightarrow> usize \<Rightarrow> fault + u32" where
  "read_u32 bf p =
     bindF (byte_at bf p) (\<lambda>b0.
     bindF (byte_at bf (p + 1)) (\<lambda>b1.
     bindF (byte_at bf (p + 2)) (\<lambda>b2.
     bindF (byte_at bf (p + 3)) (\<lambda>b3. Inr (le32 b0 b1 b2 b3)))))"

text \<open>
  The reader's diagnostics are formatted strings; each is kept as its kind with the two
  numbers it prints.
\<close>

datatype diagnostic =
    PublicSymbolsSize u32 int
  | StringPoolSize u32 int
  | BytecodeSize usize int

text \<open>
  \<open>readBytefile\<close> after the file has been read into the buffer (opening and reading the
  file raise exceptions of their own, which are not part of the parsing). \<open>fileSize\<close> is
  a \<open>std::streamoff\<close>, a signed 64-bit integer that holds every length exactly; the three
  header fields and \<open>headerSize\<close> are \<open>u32\<close>, and \<open>std::span::size\<close> and \<open>sizeof\<close> are
  \<open>usize\<close>, so their sums and products wrap at 32 bits before they meet \<open>fileSize\<close>. The
  buffer is allocated with \<open>static_cast<usize>(fileSize)\<close> bytes, and the three header
  words are copied out of it unconditionally.
\<close>

definition readBytefile :: "u8 list \<Rightarrow> usize \<Rightarrow> fault + (diagnostic list + Bytefile)" where
  "readBytefile raw u8ptr =
     (let fileSize = int (length raw)
      in if 2 ^ 32 \<le> fileSize \<or> fileSize < 12 then Inl OutOfBounds
      else
        let strPoolSize = le32 (raw ! 0) (raw ! 1) (raw ! 2) (raw ! 3);
            globalAreaSize' = le32 (raw ! 4) (raw ! 5) (raw ! 6) (raw ! 7);
            publicSymbolsNumber = le32 (raw ! 8) (raw ! 9) (raw ! 10) (raw ! 11);
            headerSize = (12 :: u32);
            noSpan = \<lparr>span_data = 0, span_size = 0\<rparr>;
            (readErrors1, publicSymbols') =
              (if fileSize \<le> uint (publicSymbolsNumber * 2 + headerSize)
               then ([PublicSymbolsSize (publicSymbolsNumber * 2) fileSize], noSpan)
               else ([], \<lparr>span_data = u8ptr + headerSize, span_size = publicSymbolsNumber * 2\<rparr>));
            (readErrors2, strPool') =
              (if fileSize \<le> uint (strPoolSize + publicSymbolsNumber * 2 + headerSize)
               then ([StringPoolSize strPoolSize
                        (fileSize - uint (publicSymbolsNumber * 2) - uint headerSize)], noSpan)
               else ([], \<lparr>span_data = u8ptr + headerSize + publicSymbolsNumber * 2 * 4,
                          span_size = strPoolSize\<rparr>));
            bytecodeSize = (word_of_int (fileSize - uint (span_size publicSymbols' * 4)
                                           - uint (span_size strPool') - uint headerSize) :: usize);
            (readErrors3, bytecode') =
              (if bytecodeSize = 0 \<or> fileSize \<le> uint bytecodeSize
               then ([BytecodeSize bytecodeSize fileSize], noSpan)
               else ([], \<lparr>span_data = u8ptr + headerSize + span_size publicSymbols' * 4
                                          + span_size strPool',
                          span_size = bytecodeSize\<rparr>));
            readErrors = readErrors1 @ readErrors2 @ readErrors3
        in if readErrors = []
           then Inr (Inr \<lparr>strPool = strPool', publicSymbols = publicSymbols',
                          bytecode = bytecode', globalAreaSize = globalAreaSize',
                          ip = span_data bytecode', fileLine = 0, prevIP = 0,
                          rawData = raw, rawAddr = u8ptr\<rparr>)
           else Inr (Inl readErrors))"

text \<open>
  A \<open>std::string_view\<close> built from a \<open>char*\<close> measures the string up to its NUL byte;
  when no NUL follows inside the buffer, the measuring reads past the buffer's end.
\<close>

record string_view =
  sv_data :: usize
  sv_size :: nat

fun cstrlen :: "u8 list \<Rightarrow> nat option" where
  "cstrlen [] = None"
| "cstrlen (b # bs) = (if b = 0 then Some 0 else map_option Suc (cstrlen bs))"

definition getString :: "usize \<Rightarrow> Bytefile \<Rightarrow> fault + string_view option" where
  "getString position bf =
     (if span_size (strPool bf) \<le> position then Inr None
      else
        let p = span_data (strPool bf) + position
        in case cstrlen (drop (unat (p - rawAddr bf)) (rawData bf)) of
             None \<Rightarrow> Inl OutOfBounds
           | Some n \<Rightarrow> Inr (Some \<lparr>sv_data = p, sv_size = n\<rparr>))"

definition getNextInt :: "Bytefile \<Rightarrow> fault + (i32 \<times> Bytefile)" where
  "getNextInt bf = bindF (read_u32 bf (ip bf)) (\<lambda>result. Inr (result, bf\<lparr>ip := ip bf + 4\<rparr>))"

definition getNextUnsigned :: "Bytefile \<Rightarrow> fault + (u32 \<times> Bytefile)" where
  "getNextUnsigned bf = bindF (read_u32 bf (ip bf)) (\<lambda>result. Inr (result, bf\<lparr>ip := ip bf + 4\<rparr>))"

text \<open>
  The assertions of \<open>address\<close> and \<open>enoughBytes\<close> are taken as compiled in: they abort
  the program when they fail.
\<close>

definition address :: "Bytefile \<Rightarrow> fault + usize" where
  "address bf =
     (if ip bf < span_data (bytecode bf) then Inl Terminated
      else Inr (ip bf - span_data (bytecode bf)))"

definition enoughBytes :: "usize \<Rightarrow> Bytefile \<Rightarrow> fault + bool" where
  "enoughBytes bytes bf =
     (if sint (ip bf - span_data (bytecode bf)) < 0 then Inl Terminated
      else Inr (bytes \<le> span_size (bytecode bf) - (ip bf - span_data (bytecode bf))))"

definition getNextString :: "Bytefile \<Rightarrow> fault + (string_view option \<times> Bytefile)" where
  "getNextString bf =
     bindF (enoughBytes 4 bf) (\<lambda>enough.
       if \<not> enough then Inr (None, bf)
       else bindF (getNextUnsigned bf) (\<lambda>(index, bf).
            bindF (getString index bf) (\<lambda>str. Inr (str, bf))))"

definition closureArray :: "u32 \<Rightarrow> Bytefile \<Rightarrow> span \<times> Bytefile" where
  "closureArray n bf =
     (\<lparr>span_data = ip bf, span_size = n\<rparr>, bf\<lparr>ip := ip bf + (1 + 4) * n\<rparr>)"

definition trySetAddress :: "u32 \<Rightarrow> Bytefile \<Rightarrow> bool \<times> Bytefile" where
  "trySetAddress absoluteAddress bf =
     (if span_size (bytecode bf) \<le> absoluteAddress then (False, bf)
      else (True, bf\<lparr>ip := span_data (bytecode bf) + absoluteAddress\<rparr>))"

definition getNextCode :: "Bytefile \<Rightarrow> fault + (u8 \<times> Bytefile)" where
  "getNextCode bf =
     bindF (byte_at bf (ip bf)) (\<lambda>code. Inr (code, bf\<lparr>prevIP := ip bf, ip := ip bf + 1\<rparr>))"

definition peekNextCode :: "Bytefile \<Rightarrow> fault + u8" where
  "peekNextCode bf = byte_at bf (ip bf)"

section \<open>The instruction handlers\<close>

text \<open>
  Beside the two members of the class, the state carries what the handlers touch outside
  it: the cells of runtime objects, and what has been written to the standard error and
  output streams (texts and numbers, in order).
\<close>

datatype out = Str string | Num int | Hex int

record Interpreter =
  isClosure :: bool
  stack :: Stack
  heap :: "usize \<Rightarrow> usize"
  cerr :: "out list"
  cout :: "out list"

datatype InterpretResult = CONTINUE | STOP | ERROR

type_synonym handled = "fault + (InterpretResult \<times> Interpreter)"

definition NOT_ENOUGH_POP :: string where
  "NOT_ENOUGH_POP = ''Cannot allocate enough memory on stack: underflow''"

definition NOT_ENOUGH_PUSH :: string where
  "NOT_ENOUGH_PUSH = ''Cannot allocate enough memory on stack: overflow''"

definition print_cerr :: "out list \<Rightarrow> Interpreter \<Rightarrow> Interpreter" where
  "print_cerr msg I = I\<lparr>cerr := cerr I @ msg\<rparr>"

text \<open>Reading and writing through a reference.\<close>

definition read_ref :: "ref \<Rightarrow> Interpreter \<Rightarrow> fault + usize" where
  "read_ref r I = (case r of SlotRef i \<Rightarrow> read_slot i (stack I) | HeapRef a \<Rightarrow> Inr (heap I a))"

definition write_ref :: "ref \<Rightarrow> usize \<Rightarrow> Interpreter \<Rightarrow> fault + Interpreter" where
  "write_ref r v I =
     (case r of
        SlotRef i \<Rightarrow> bindF (write_slot i v (stack I)) (\<lambda>s. Inr (I\<lparr>stack := s\<rparr>))
      | HeapRef a \<Rightarrow> Inr (I\<lparr>heap := (heap I)(a := v)\<rparr>))"

definition ref_to_word :: "Stack \<Rightarrow> ref \<Rightarrow> usize" where
  "ref_to_word s r = (case r of SlotRef i \<Rightarrow> ptr_to_word s i | HeapRef a \<Rightarrow> a)"

definition onBegin :: "bool \<Rightarrow> u32 \<Rightarrow> u32 \<Rightarrow> Interpreter \<Rightarrow> handled" where
  "onBegin beginInClosure nArgs' nLocals' I =
     bindF (prologue beginInClosure nArgs' nLocals' (stack I)) (\<lambda>(ok, s).
       if \<not> ok then Inr (ERROR, print_cerr [Str NOT_ENOUGH_PUSH] (I\<lparr>stack := s\<rparr>))
       else Inr (CONTINUE, I\<lparr>stack := s\<rparr>))"

definition onCallLRead :: "Runtime \<Rightarrow> Interpreter \<Rightarrow> handled" where
  "onCallLRead rt I =
     (if \<not> enoughToPush 1 (stack I) then Inr (ERROR, print_cerr [Str NOT_ENOUGH_PUSH] I)
      else bindF (push (Lread rt) (stack I)) (\<lambda>s. Inr (CONTINUE, I\<lparr>stack := s\<rparr>)))"

definition onLine :: "u32 \<Rightarrow> Interpreter \<Rightarrow> handled" where
  "onLine line I = Inr (CONTINUE, I)"

definition onStore :: "u32 \<Rightarrow> VariableType \<Rightarrow> Interpreter \<Rightarrow> handled" where
  "onStore index toSave I =
     (if \<not> enoughToPop 1 (stack I) then Inr (ERROR, print_cerr [Str NOT_ENOUGH_POP] I)
      else
        bindF (top' (stack I)) (\<lambda>t.
        bindF (getReference index toSave (stack I)) (\<lambda>res.
          case res of
            None \<Rightarrow> Inr (ERROR, print_cerr [Str ''Cannot get reference on index '', Num (uint index),
                                             Str '' for type '', Num (uint toSave)] I)
          | Some r \<Rightarrow> bindF (write_ref r t I) (\<lambda>I. Inr (CONTINUE, I)))))"

definition onDrop :: "Interpreter \<Rightarrow> handled" where
  "onDrop I =
     (if \<not> enoughToPop 1 (stack I) then Inr (ERROR, print_cerr [Str NOT_ENOUGH_POP] I)
      else bindF (pop (stack I)) (\<lambda>(v, s). Inr (CONTINUE, I\<lparr>stack := s\<rparr>)))"

definition onLoad :: "u32 \<Rightarrow> VariableType \<Rightarrow> Interpreter \<Rightarrow> handled" where
  "onLoad index toLoad I =
     bindF (getReference index toLoad (stack I)) (\<lambda>res.
       case res of
         None \<Rightarrow> Inr (ERROR, print_cerr [Str ''Cannot create reference with index '', Num (uint index),
                                          Str ''and type '', Num (uint toLoad)] I)
       | Some r \<Rightarrow>
           if \<not> enoughToPush 1 (stack I) then Inr (ERROR, print_cerr [Str NOT_ENOUGH_PUSH] I)
           else bindF (read_ref r I) (\<lambda>v.
                bindF (push v (stack I)) (\<lambda>s. Inr (CONTINUE, I\<lparr>stack := s\<rparr>))))"

text \<open>
  \<open>BinOp\<close> is an enum over \<open>u8\<close>, cast from the low nibble of the opcode: the values
  \<open>0x01\<close> to \<open>0x0D\<close> are, in order, the operations add, sub, mul, div, rem, lt, le, gt,
  ge, eq, ne, and, or. The operators
  are those of C++ on \<open>i32\<close>: the quotient truncates towards zero and the remainder takes
  the sign of the dividend; a zero divisor, and the one quotient that does not fit, trap
  on the host; comparisons and the logical operators give 0 or 1. Sums, differences and
  products are taken modulo \<open>2^32\<close>, as the host computes them. An operation outside the
  enum reaches \<open>default: FAIL()\<close>.
\<close>

type_synonym BinOp = u8

definition b2i :: "bool \<Rightarrow> i32" where
  "b2i b = (if b then 1 else 0)"

definition binop :: "BinOp \<Rightarrow> i32 \<Rightarrow> i32 \<Rightarrow> fault + i32" where
  "binop operation lhs rhs =
     (if operation = 0x01 then Inr (lhs + rhs)
      else if operation = 0x02 then Inr (lhs - rhs)
      else if operation = 0x03 then Inr (lhs * rhs)
      else if operation = 0x04 then
        (if rhs = 0 \<or> (lhs = 0x80000000 \<and> rhs = - 1) then Inl DivisionTrap
         else Inr (word_of_int (sint lhs sdiv sint rhs)))
      else if operation = 0x05 then
        (if rhs = 0 \<or> (lhs = 0x80000000 \<and> rhs = - 1) then Inl DivisionTrap
         else Inr (word_of_int (sint lhs smod sint rhs)))
      else if operation = 0x06 then Inr (b2i (sint lhs < sint rhs))
      else if operation = 0x07 then Inr (b2i (sint lhs \<le> sint rhs))
      else if operation = 0x08 then Inr (b2i (sint rhs < sint lhs))
      else if operation = 0x09 then Inr (b2i (sint rhs \<le> sint lhs))
      else if operation = 0x0A then Inr (b2i (lhs = rhs))
      else if operation = 0x0B then Inr (b2i (lhs \<noteq> rhs))
      else if operation = 0x0C then Inr (b2i (lhs \<noteq> 0 \<and> rhs \<noteq> 0))
      else if operation = 0x0D then Inr (b2i (lhs \<noteq> 0 \<or> rhs \<noteq> 0))
      else Inl Terminated)"

definition onBinOp :: "BinOp \<Rightarrow> Interpreter \<Rightarrow> handled" where
  "onBinOp operation I =
     (if \<not> enoughToPop 2 (stack I) then Inr (ERROR, print_cerr [Str NOT_ENOUGH_POP] I)
      else
        bindF (pop (stack I)) (\<lambda>(w, s). let rhs = UNBOX w in
        bindF (pop s) (\<lambda>(w, s). let lhs = UNBOX w in
        bindF (binop operation lhs rhs) (\<lambda>result.
        bindF (push (BOX result) s) (\<lambda>s. Inr (CONTINUE, I\<lparr>stack := s\<rparr>))))))"

definition onConst :: "i32 \<Rightarrow> Interpreter \<Rightarrow> handled" where
  "onConst v I =
     (if \<not> enoughToPush 1 (stack I) then Inr (ERROR, print_cerr [Str NOT_ENOUGH_PUSH] I)
      else bindF (push (BOX v) (stack I)) (\<lambda>s. Inr (CONTINUE, I\<lparr>stack := s\<rparr>)))"

definition onCallLWrite :: "Interpreter \<Rightarrow> handled" where
  "onCallLWrite I =
     (if \<not> enoughToPop 1 (stack I) then Inr (ERROR, print_cerr [Str NOT_ENOUGH_POP] I)
      else
        bindF (pop (stack I)) (\<lambda>(w, s). let val = UNBOX w in
        bindF (push (BOX 0) s) (\<lambda>s.
          Inr (CONTINUE, I\<lparr>stack := s, cout := cout I @ [Num (sint val), Str [CHR 0x0A]]\<rparr>))))"

text \<open>The next instruction pointer, as a word: 0 is \<open>nullptr\<close>.\<close>

definition onEndOrRet :: "Interpreter \<Rightarrow> fault + (usize \<times> Interpreter)" where
  "onEndOrRet I =
     bindF (if bp (stack I) \<noteq> stackBegin (stack I) - 1 then epilogue (isClosure I) (stack I)
            else Inr (0, stack I))
       (\<lambda>(result, s). Inr (result, I\<lparr>stack := s, isClosure := False\<rparr>))"

definition onJump :: "u32 \<Rightarrow> usize" where
  "onJump jumpLocation = jumpLocation"

definition onCondJump :: "bool \<Rightarrow> u32 \<Rightarrow> usize \<Rightarrow> Interpreter \<Rightarrow> fault + (usize option \<times> Interpreter)" where
  "onCondJump isNotEq jumpLocation originalAddress I =
     (if \<not> enoughToPop 1 (stack I) then Inr (None, print_cerr [Str NOT_ENOUGH_POP] I)
      else
        bindF (pop (stack I)) (\<lambda>(w, s). let t = UNBOX w; I = I\<lparr>stack := s\<rparr> in
          if (t = 0 \<and> \<not> isNotEq) \<or> (t \<noteq> 0 \<and> isNotEq) then Inr (Some jumpLocation, I)
          else Inr (Some originalAddress, I)))"

definition onCall :: "u32 \<Rightarrow> u32 \<Rightarrow> usize \<Rightarrow> Interpreter \<Rightarrow> fault + (usize option \<times> Interpreter)" where
  "onCall location nArgs' originalIP I =
     (if \<not> enoughToPush 1 (stack I) then Inr (None, print_cerr [Str NOT_ENOUGH_PUSH] I)
      else bindF (push originalIP (stack I)) (\<lambda>s. Inr (Some location, I\<lparr>stack := s\<rparr>)))"

definition onString :: "Runtime \<Rightarrow> string_view \<Rightarrow> Interpreter \<Rightarrow> handled" where
  "onString rt str I =
     (if \<not> enoughToPush 1 (stack I) then Inr (ERROR, print_cerr [Str NOT_ENOUGH_PUSH] I)
      else bindF (push (Bstring rt (sv_data str)) (stack I)) (\<lambda>s. Inr (CONTINUE, I\<lparr>stack := s\<rparr>)))"

definition onCallLLength :: "Runtime \<Rightarrow> Interpreter \<Rightarrow> handled" where
  "onCallLLength rt I =
     (if \<not> enoughToPop 1 (stack I) then Inr (ERROR, print_cerr [Str NOT_ENOUGH_POP] I)
      else
        bindF (pop (stack I)) (\<lambda>(val, s).
        bindF (push (Llength rt val) s) (\<lambda>s. Inr (CONTINUE, I\<lparr>stack := s\<rparr>))))"

definition onElem :: "Runtime \<Rightarrow> Interpreter \<Rightarrow> handled" where
  "onElem rt I =
     (if \<not> enoughToPop 2 (stack I) then Inr (ERROR, print_cerr [Str NOT_ENOUGH_POP] I)
      else
        bindF (pop (stack I)) (\<lambda>(index, s).
        bindF (pop s) (\<lambda>(valToPtr, s).
        bindF (push (Belem rt valToPtr index) s) (\<lambda>s. Inr (CONTINUE, I\<lparr>stack := s\<rparr>)))))"

definition onSTA :: "Runtime \<Rightarrow> Interpreter \<Rightarrow> handled" where
  "onSTA rt I =
     (if \<not> enoughToPop 3 (stack I) then Inr (ERROR, print_cerr [Str NOT_ENOUGH_POP] I)
      else
        bindF (pop (stack I)) (\<lambda>(valuePtr, s).
        bindF (pop s) (\<lambda>(i, s).
        bindF (pop s) (\<lambda>(xPtr, s).
        bindF (push (Bsta rt valuePtr i xPtr) s) (\<lambda>s. Inr (CONTINUE, I\<lparr>stack := s\<rparr>))))))"

text \<open>
  The loop \<open>for (; n > 0; --n)\<close> of \<open>onCallBArray\<close> and \<open>onSexp\<close>: each round pops one
  word and stores it in cell \<open>n - 1\<close> of the object's contents (cells of 4 bytes).
\<close>

fun pop_into :: "nat \<Rightarrow> usize \<Rightarrow> Interpreter \<Rightarrow> fault + Interpreter" where
  "pop_into 0 contents I = Inr I"
| "pop_into (Suc k) contents I =
     bindF (pop (stack I)) (\<lambda>(elem, s).
       pop_into k contents (I\<lparr>stack := s, heap := (heap I)(contents + 4 * of_nat k := elem)\<rparr>))"

definition onCallBArray :: "Runtime \<Rightarrow> u32 \<Rightarrow> Interpreter \<Rightarrow> handled" where
  "onCallBArray rt n I =
     (if \<not> enoughToPop n (stack I) then Inr (ERROR, print_cerr [Str NOT_ENOUGH_POP] I)
      else
        let bArray = alloc_array rt n in
        bindF (pop_into (unat n) (data_contents rt bArray) I) (\<lambda>I.
        bindF (push (data_contents rt bArray) (stack I)) (\<lambda>s. Inr (CONTINUE, I\<lparr>stack := s\<rparr>))))"

definition onSexp :: "Runtime \<Rightarrow> string_view \<Rightarrow> u32 \<Rightarrow> Interpreter \<Rightarrow> handled" where
  "onSexp rt tag n I =
     (if \<not> enoughToPop n (stack I) then Inr (ERROR, print_cerr [Str NOT_ENOUGH_POP] I)
      else
        let sExpArray = alloc_sexp rt n;
            I = I\<lparr>heap := (heap I)(sexp_tag rt sExpArray := 0)\<rparr>
        in
        bindF (pop_into (unat n) (sexp_contents rt sExpArray) I) (\<lambda>I.
          let I = I\<lparr>heap := (heap I)(sexp_tag rt sExpArray := UNBOX (LtagHash rt (sv_data tag)))\<rparr>
          in bindF (push (sexp_tag rt sExpArray) (stack I)) (\<lambda>s. Inr (CONTINUE, I\<lparr>stack := s\<rparr>))))"

definition onDuplicate :: "Interpreter \<Rightarrow> handled" where
  "onDuplicate I =
     (if \<not> enoughToPop 1 (stack I) then Inr (ERROR, print_cerr [Str NOT_ENOUGH_POP] I)
      else if \<not> enoughToPush 1 (stack I) then Inr (ERROR, print_cerr [Str NOT_ENOUGH_PUSH] I)
      else
        bindF (top' (stack I)) (\<lambda>t.
        bindF (push t (stack I)) (\<lambda>s. Inr (CONTINUE, I\<lparr>stack := s\<rparr>))))"

definition onTag :: "Runtime \<Rightarrow> string_view \<Rightarrow> u32 \<Rightarrow> Interpreter \<Rightarrow> handled" where
  "onTag rt name n I =
     (if \<not> enoughToPop 1 (stack I) then Inr (ERROR, print_cerr [Str NOT_ENOUGH_POP] I)
      else
        let hash = LtagHash rt (sv_data name);
            boxed = BOX n
        in
        bindF (pop (stack I)) (\<lambda>(v, s).
        bindF (push (Btag rt v hash boxed) s) (\<lambda>s. Inr (CONTINUE, I\<lparr>stack := s\<rparr>))))"

definition onCallLString :: "Runtime \<Rightarrow> Interpreter \<Rightarrow> handled" where
  "onCallLString rt I =
     (if \<not> enoughToPop 1 (stack I) then Inr (ERROR, print_cerr [Str NOT_ENOUGH_POP] I)
      else
        bindF (pop (stack I)) (\<lambda>(v, s).
        bindF (push (Lstring rt v) s) (\<lambda>s. Inr (CONTINUE, I\<lparr>stack := s\<rparr>))))"

definition onLoadAccumulator :: "u32 \<Rightarrow> VariableType \<Rightarrow> Interpreter \<Rightarrow> handled" where
  "onLoadAccumulator index toLoad I =
     bindF (getReference index toLoad (stack I)) (\<lambda>res.
       case res of
         None \<Rightarrow> Inr (ERROR, print_cerr [Str ''cannot create reference in closure for index'',
                                          Num (uint index), Str '' and value '', Num (uint toLoad)] I)
       | Some r \<Rightarrow>
           if \<not> enoughToPush 2 (stack I) then Inr (ERROR, print_cerr [Str NOT_ENOUGH_PUSH] I)
           else
             let val = ref_to_word (stack I) r in
             bindF (push val (stack I)) (\<lambda>s.
             bindF (push val s) (\<lambda>s. Inr (CONTINUE, I\<lparr>stack := s\<rparr>))))"

text \<open>
  The capture descriptors of CLOSURE are records of 5 bytes in the bytecode, read one by
  one by the loop of \<open>onClosure\<close>: \<open>k\<close> counts the descriptors left, \<open>p\<close> is the address of
  the next one and \<open>i\<close> the next cell of the closure.
\<close>

fun capture_loop ::
  "Bytefile \<Rightarrow> nat \<Rightarrow> usize \<Rightarrow> u32 \<Rightarrow> usize \<Rightarrow> Interpreter \<Rightarrow> fault + (bool \<times> Interpreter)" where
  "capture_loop bf 0 p i contents I = Inr (True, I)"
| "capture_loop bf (Suc k) p i contents I =
     bindF (byte_at bf p) (\<lambda>type.
     bindF (read_u32 bf (p + 1)) (\<lambda>index.
     bindF (getReference index type (stack I)) (\<lambda>res.
       case res of
         None \<Rightarrow> Inr (False, print_cerr [Str ''cannot create reference in closure for index'',
                                          Num (uint index), Str '' and value '', Num (uint type)] I)
       | Some r \<Rightarrow>
           bindF (read_ref r I) (\<lambda>v.
             capture_loop bf k (p + 5) (i + 1) contents
               (I\<lparr>heap := (heap I)(contents + 4 * i := v)\<rparr>)))))"

definition onClosure :: "Runtime \<Rightarrow> Bytefile \<Rightarrow> u32 \<Rightarrow> span \<Rightarrow> Interpreter \<Rightarrow> handled" where
  "onClosure rt bf address' args I =
     (if \<not> enoughToPush 1 (stack I) then Inr (ERROR, print_cerr [Str NOT_ENOUGH_PUSH] I)
      else
        let closure = alloc_closure rt (span_size args + 1)
        in if closure = 0
           then Inr (CONTINUE, print_cerr [Str ''Cannot allocate memory for closure''] I)
           else
             let contents = data_contents rt closure;
                 I = I\<lparr>heap := (heap I)(contents := address')\<rparr>
             in
             bindF (capture_loop bf (unat (span_size args)) (span_data args) 1 contents I) (\<lambda>(ok, I).
               if \<not> ok then Inr (ERROR, I)
               else bindF (push contents (stack I)) (\<lambda>s. Inr (CONTINUE, I\<lparr>stack := s\<rparr>))))"

definition onCallClosure :: "usize \<Rightarrow> u32 \<Rightarrow> Interpreter \<Rightarrow> fault + (usize option \<times> Interpreter)" where
  "onCallClosure returnAddress nArgs' I =
     (if \<not> enoughToPush 1 (stack I) then Inr (None, print_cerr [Str NOT_ENOUGH_PUSH] I)
      else
        bindF (closureRelativeAddr (heap I) nArgs' (stack I)) (\<lambda>addr.
        bindF (push returnAddress (stack I)) (\<lambda>s.
          Inr (Some addr, I\<lparr>stack := s, isClosure := True\<rparr>))))"

type_synonym PatternType = u8

definition onPattern :: "Runtime \<Rightarrow> PatternType \<Rightarrow> Interpreter \<Rightarrow> handled" where
  "onPattern rt pattern I =
     (if \<not> enoughToPop 1 (stack I) then Inr (ERROR, print_cerr [Str NOT_ENOUGH_POP] I)
      else if pattern = 0x0 then
        (if \<not> enoughToPop 1 (stack I) then Inr (ERROR, print_cerr [Str NOT_ENOUGH_POP] I)
         else
           bindF (pop (stack I)) (\<lambda>(lhs, s).
           bindF (pop s) (\<lambda>(rhs, s).
           bindF (push (Bstring_patt rt lhs rhs) s) (\<lambda>s. Inr (CONTINUE, I\<lparr>stack := s\<rparr>)))))
      else
        bindF
          (if pattern = 0x1 then bindF (pop (stack I)) (\<lambda>(val, s). Inr (Bstring_tag_patt rt val, s))
           else if pattern = 0x2 then bindF (pop (stack I)) (\<lambda>(val, s). Inr (Barray_tag_patt rt val, s))
           else if pattern = 0x3 then bindF (pop (stack I)) (\<lambda>(val, s). Inr (Bsexp_tag_patt rt val, s))
           else if pattern = 0x4 then bindF (pop (stack I)) (\<lambda>(val, s). Inr (Bboxed_patt rt val, s))
           else if pattern = 0x5 then bindF (pop (stack I)) (\<lambda>(val, s). Inr (Bunboxed_patt rt val, s))
           else if pattern = 0x6 then bindF (pop (stack I)) (\<lambda>(val, s). Inr (Bclosure_tag_patt rt val, s))
           else Inr (0, stack I))
          (\<lambda>(result, s). bindF (push result s) (\<lambda>s. Inr (CONTINUE, I\<lparr>stack := s\<rparr>))))"

definition onArray :: "Runtime \<Rightarrow> u32 \<Rightarrow> Interpreter \<Rightarrow> handled" where
  "onArray rt size' I =
     (if \<not> enoughToPop 1 (stack I) then Inr (ERROR, print_cerr [Str NOT_ENOUGH_POP] I)
      else
        bindF (pop (stack I)) (\<lambda>(array, s).
        bindF (push (Barray_patt rt array (BOX size')) s) (\<lambda>s. Inr (CONTINUE, I\<lparr>stack := s\<rparr>))))"

definition onSwap :: "Interpreter \<Rightarrow> handled" where
  "onSwap I =
     (if \<not> enoughToPop 2 (stack I) then Inr (ERROR, print_cerr [Str NOT_ENOUGH_POP] I)
      else
        bindF (pop (stack I)) (\<lambda>(first, s).
        bindF (pop s) (\<lambda>(second, s).
        bindF (push first s) (\<lambda>s.
        bindF (push second s) (\<lambda>s. Inr (CONTINUE, I\<lparr>stack := s\<rparr>))))))"

definition onFail :: "Interpreter \<Rightarrow> handled" where
  "onFail I =
     (if \<not> enoughToPop 2 (stack I)
      then Inr (ERROR, print_cerr [Str ''Critical -- not enough values for fail message''] I)
      else
        bindF (pop (stack I)) (\<lambda>(first, s).
        bindF (pop s) (\<lambda>(second, s).
          Inr (ERROR, print_cerr [Str ''Something went wrong: '', Num (uint first), Str '', '',
                                  Num (uint second)] (I\<lparr>stack := s\<rparr>)))))"

section \<open>The decoder\<close>

text \<open>
  One step of the interpreter, \<open>interpretOne\<close> of Main.cpp. The result carries the
  bytefile (its instruction pointer moves) and the interpreter. The macros
  \<open>checkEnoughBytes\<close> and \<open>trySetAddr\<close> print a message and return \<open>ERROR\<close>; in the messages
  an opcode's mnemonic is kept as the opcode.
\<close>

type_synonym stepped = "fault + (InterpretResult \<times> Bytefile \<times> Interpreter)"

definition with_bytefile :: "Bytefile \<Rightarrow> handled \<Rightarrow> stepped" where
  "with_bytefile bf h = bindF h (\<lambda>(r, I). Inr (r, bf, I))"

definition checkEnoughBytes :: "usize \<Rightarrow> Bytefile \<Rightarrow> Interpreter \<Rightarrow> stepped \<Rightarrow> stepped" where
  "checkEnoughBytes bytes bf I rest =
     bindF (enoughBytes bytes bf) (\<lambda>enough.
       if \<not> enough
       then Inr (ERROR, bf, print_cerr [Str ''Bytecode could not read next to'', Num (uint bytes),
                                        Str '' bytes''] I)
       else rest)"

definition trySetAddr :: "string \<Rightarrow> usize \<Rightarrow> Bytefile \<Rightarrow> Interpreter \<Rightarrow> (Bytefile \<Rightarrow> stepped) \<Rightarrow> stepped" where
  "trySetAddr action' address' bf I rest =
     (case trySetAddress address' bf of
        (False, bf) \<Rightarrow>
          Inr (ERROR, bf, print_cerr [Str (''Cannot '' @ action' @ '' to address 0x''),
                                      Hex (uint address'),
                                      Str ('' -- outside bytecode'' @ [CHR 0x0A])] I)
      | (True, bf) \<Rightarrow> rest bf)"

abbreviation "BINOP_add \<equiv> (0x01 :: u8)"
abbreviation "BINOP_sub \<equiv> (0x02 :: u8)"
abbreviation "BINOP_mul \<equiv> (0x03 :: u8)"
abbreviation "BINOP_div \<equiv> (0x04 :: u8)"
abbreviation "BINOP_rem \<equiv> (0x05 :: u8)"
abbreviation "BINOP_lt \<equiv> (0x06 :: u8)"
abbreviation "BINOP_le \<equiv> (0x07 :: u8)"
abbreviation "BINOP_gt \<equiv> (0x08 :: u8)"
abbreviation "BINOP_ge \<equiv> (0x09 :: u8)"
abbreviation "BINOP_eq \<equiv> (0x0A :: u8)"
abbreviation "BINOP_ne \<equiv> (0x0B :: u8)"
abbreviation "BINOP_and \<equiv> (0x0C :: u8)"
abbreviation "BINOP_or \<equiv> (0x0D :: u8)"
abbreviation "CONST' \<equiv> (0x10 :: u8)"
abbreviation "STRING \<equiv> (0x11 :: u8)"
abbreviation "SEXP \<equiv> (0x12 :: u8)"
abbreviation "STI \<equiv> (0x13 :: u8)"
abbreviation "STA \<equiv> (0x14 :: u8)"
abbreviation "JMP \<equiv> (0x15 :: u8)"
abbreviation "END \<equiv> (0x16 :: u8)"
abbreviation "RET \<equiv> (0x17 :: u8)"
abbreviation "DROP \<equiv> (0x18 :: u8)"
abbreviation "DUP \<equiv> (0x19 :: u8)"
abbreviation "SWAP \<equiv> (0x1A :: u8)"
abbreviation "ELEM \<equiv> (0x1B :: u8)"
abbreviation "LD_G \<equiv> (0x20 :: u8)"
abbreviation "LD_L \<equiv> (0x21 :: u8)"
abbreviation "LD_A \<equiv> (0x22 :: u8)"
abbreviation "LD_C \<equiv> (0x23 :: u8)"
abbreviation "LDA_G \<equiv> (0x30 :: u8)"
abbreviation "LDA_L \<equiv> (0x31 :: u8)"
abbreviation "LDA_A \<equiv> (0x32 :: u8)"
abbreviation "LDA_C \<equiv> (0x33 :: u8)"
abbreviation "ST_G \<equiv> (0x40 :: u8)"
abbreviation "ST_L \<equiv> (0x41 :: u8)"
abbreviation "ST_A \<equiv> (0x42 :: u8)"
abbreviation "ST_C \<equiv> (0x43 :: u8)"
abbreviation "CJMPz \<equiv> (0x50 :: u8)"
abbreviation "CJMPnz \<equiv> (0x51 :: u8)"
abbreviation "BEGIN \<equiv> (0x52 :: u8)"
abbreviation "CBEGIN \<equiv> (0x53 :: u8)"
abbreviation "CLOSURE \<equiv> (0x54 :: u8)"
abbreviation "CALLC \<equiv> (0x55 :: u8)"
abbreviation "CALL \<equiv> (0x56 :: u8)"
abbreviation "TAG \<equiv> (0x57 :: u8)"
abbreviation "ARRAY \<equiv> (0x58 :: u8)"
abbreviation "FAIL \<equiv> (0x59 :: u8)"
abbreviation "LINE \<equiv> (0x5A :: u8)"
abbreviation "PATT_str \<equiv> (0x60 :: u8)"
abbreviation "PATT_string \<equiv> (0x61 :: u8)"
abbreviation "PATT_array \<equiv> (0x62 :: u8)"
abbreviation "PATT_sexp \<equiv> (0x63 :: u8)"
abbreviation "PATT_ref \<equiv> (0x64 :: u8)"
abbreviation "PATT_val \<equiv> (0x65 :: u8)"
abbreviation "PATT_fun \<equiv> (0x66 :: u8)"
abbreviation "CALL_Lread \<equiv> (0x70 :: u8)"
abbreviation "CALL_Lwrite \<equiv> (0x71 :: u8)"
abbreviation "CALL_Llength \<equiv> (0x72 :: u8)"
abbreviation "CALL_Lstring \<equiv> (0x73 :: u8)"
abbreviation "CALL_Barray \<equiv> (0x74 :: u8)"

definition interpretOne :: "Runtime \<Rightarrow> Bytefile \<Rightarrow> Interpreter \<Rightarrow> stepped" where
  "interpretOne rt bytefile interpreter =
     checkEnoughBytes 1 bytefile interpreter (
     bindF (getNextCode bytefile) (\<lambda>(code, bytefile).
     let low = code AND 0x0F in
     if code \<in> {BINOP_add, BINOP_sub, BINOP_mul, BINOP_div, BINOP_rem, BINOP_lt, BINOP_le,
                 BINOP_gt, BINOP_ge, BINOP_eq, BINOP_ne, BINOP_and, BINOP_or} then
       with_bytefile bytefile (onBinOp low interpreter)
     else if code = CONST' then
       checkEnoughBytes 4 bytefile interpreter (
       bindF (getNextInt bytefile) (\<lambda>(val, bytefile).
         with_bytefile bytefile (onConst val interpreter)))
     else if code = STRING then
       bindF (getNextString bytefile) (\<lambda>(val, bytefile).
         case val of
           None \<Rightarrow> Inr (ERROR, bytefile, interpreter)
         | Some str \<Rightarrow> with_bytefile bytefile (onString rt str interpreter))
     else if code = SEXP then
       bindF (getNextString bytefile) (\<lambda>(tag, bytefile).
         case tag of
           None \<Rightarrow> Inr (ERROR, bytefile, interpreter)
         | Some str \<Rightarrow>
             checkEnoughBytes 4 bytefile interpreter (
             bindF (getNextUnsigned bytefile) (\<lambda>(n, bytefile).
               with_bytefile bytefile (onSexp rt str n interpreter))))
     else if code = STI then Inl Terminated
     else if code = STA then with_bytefile bytefile (onSTA rt interpreter)
     else if code = JMP then
       checkEnoughBytes 4 bytefile interpreter (
       bindF (getNextUnsigned bytefile) (\<lambda>(toJump, bytefile).
         case trySetAddress (onJump toJump) bytefile of
           (False, bytefile) \<Rightarrow> Inr (ERROR, bytefile, interpreter)
         | (True, bytefile) \<Rightarrow> Inr (CONTINUE, bytefile, interpreter)))
     else if code = END \<or> code = RET then
       bindF (onEndOrRet interpreter) (\<lambda>(nextCode, interpreter).
         let bytefile = bytefile\<lparr>ip := nextCode\<rparr>
         in if nextCode = 0 then Inr (STOP, bytefile, interpreter)
            else Inr (CONTINUE, bytefile, interpreter))
     else if code = DROP then with_bytefile bytefile (onDrop interpreter)
     else if code = DUP then with_bytefile bytefile (onDuplicate interpreter)
     else if code = SWAP then with_bytefile bytefile (onSwap interpreter)
     else if code = ELEM then with_bytefile bytefile (onElem rt interpreter)
     else if code \<in> {LD_G, LD_L, LD_A, LD_C} then
       checkEnoughBytes 4 bytefile interpreter (
       bindF (getNextUnsigned bytefile) (\<lambda>(idx, bytefile).
         with_bytefile bytefile (onLoad idx low interpreter)))
     else if code \<in> {LDA_G, LDA_L, LDA_A, LDA_C} then
       checkEnoughBytes 4 bytefile interpreter (
       bindF (getNextUnsigned bytefile) (\<lambda>(idx, bytefile).
         with_bytefile bytefile (onLoadAccumulator idx low interpreter)))
     else if code \<in> {ST_G, ST_L, ST_A, ST_C} then
       checkEnoughBytes 4 bytefile interpreter (
       bindF (getNextUnsigned bytefile) (\<lambda>(idx, bytefile).
         with_bytefile bytefile (onStore idx low interpreter)))
     else if code = CJMPz \<or> code = CJMPnz then
       checkEnoughBytes 4 bytefile interpreter (
         let isNotEq = (low AND 0x01 \<noteq> 0) in
         bindF (getNextUnsigned bytefile) (\<lambda>(jumpLocation, bytefile).
         bindF (address bytefile) (\<lambda>originalAddress.
         bindF (onCondJump isNotEq jumpLocation originalAddress interpreter) (\<lambda>(jump, interpreter).
           case jump of
             None \<Rightarrow> Inr (ERROR, bytefile, interpreter)
           | Some target \<Rightarrow>
               trySetAddr ''jump'' target bytefile interpreter
                 (\<lambda>bytefile. Inr (CONTINUE, bytefile, interpreter))))))
     else if code = BEGIN \<or> code = CBEGIN then
       checkEnoughBytes (4 * 2) bytefile interpreter (
         let isCBegin = (low AND 0x1 \<noteq> 0) in
         bindF (getNextUnsigned bytefile) (\<lambda>(nArgs', bytefile).
         bindF (getNextUnsigned bytefile) (\<lambda>(nLocals', bytefile).
           with_bytefile bytefile (onBegin isCBegin nArgs' nLocals' interpreter))))
     else if code = CLOSURE then
       checkEnoughBytes (4 * 2) bytefile interpreter (
         bindF (getNextUnsigned bytefile) (\<lambda>(address', bytefile).
         bindF (getNextUnsigned bytefile) (\<lambda>(n, bytefile).
           case closureArray n bytefile of
             (args, bytefile) \<Rightarrow>
               with_bytefile bytefile (onClosure rt bytefile address' args interpreter))))
     else if code = CALLC then
       checkEnoughBytes 4 bytefile interpreter (
         bindF (getNextUnsigned bytefile) (\<lambda>(nArgs', bytefile).
         bindF (onCallClosure (ip bytefile) nArgs' interpreter) (\<lambda>(closureAddress, interpreter).
           case closureAddress of
             None \<Rightarrow> Inr (ERROR, bytefile, interpreter)
           | Some target \<Rightarrow>
               trySetAddr ''jump'' target bytefile interpreter (\<lambda>bytefile.
                 bindF (peekNextCode bytefile) (\<lambda>nextOpcode.
                   if nextOpcode \<noteq> CBEGIN \<and> nextOpcode \<noteq> BEGIN
                   then Inr (ERROR, bytefile,
                             print_cerr [Str ''Cannot call closure to address 0x'', Hex (uint target),
                                         Str '' -- next opcode is '', Num (uint nextOpcode),
                                         Str ('' not (C)BEGIN'' @ [CHR 0x0A])] interpreter)
                   else Inr (CONTINUE, bytefile, interpreter))))))
     else if code = CALL then
       checkEnoughBytes (4 * 2) bytefile interpreter (
         bindF (getNextUnsigned bytefile) (\<lambda>(location, bytefile).
         bindF (getNextUnsigned bytefile) (\<lambda>(nArgs', bytefile).
         bindF (onCall location nArgs' (ip bytefile) interpreter) (\<lambda>(callAddress, interpreter).
           case callAddress of
             None \<Rightarrow> Inr (ERROR, bytefile, interpreter)
           | Some target \<Rightarrow>
               trySetAddr ''call'' target bytefile interpreter (\<lambda>bytefile.
                 bindF (peekNextCode bytefile) (\<lambda>nextOpcode.
                   if nextOpcode \<noteq> BEGIN
                   then Inr (ERROR, bytefile,
                             print_cerr [Str ''Cannot call to address 0x'', Hex (uint target),
                                         Str '' -- next opcode is '', Num (uint nextOpcode),
                                         Str ('' not BEGIN'' @ [CHR 0x0A])] interpreter)
                   else Inr (CONTINUE, bytefile, interpreter)))))))
     else if code = TAG then
       bindF (getNextString bytefile) (\<lambda>(name, bytefile).
         case name of
           None \<Rightarrow> Inr (ERROR, bytefile,
                         print_cerr [Str (''could not retrieve a string'' @ [CHR 0x0A])] interpreter)
         | Some str \<Rightarrow>
             bindF (getNextUnsigned bytefile) (\<lambda>(n, bytefile).
               with_bytefile bytefile (onTag rt str n interpreter)))
     else if code = ARRAY then
       bindF (getNextUnsigned bytefile) (\<lambda>(size', bytefile).
         with_bytefile bytefile (onArray rt size' interpreter))
     else if code = FAIL then with_bytefile bytefile (onFail interpreter)
     else if code = LINE then
       bindF (getNextUnsigned bytefile) (\<lambda>(line, bytefile).
         let bytefile = bytefile\<lparr>fileLine := line\<rparr>
         in with_bytefile bytefile (onLine line interpreter))
     else if code \<in> {PATT_str, PATT_string, PATT_array, PATT_sexp, PATT_ref, PATT_val,
                      PATT_fun} then
       with_bytefile bytefile (onPattern rt low interpreter)
     else if code = CALL_Lread then with_bytefile bytefile (onCallLRead rt interpreter)
     else if code = CALL_Lwrite then with_bytefile bytefile (onCallLWrite interpreter)
     else if code = CALL_Llength then with_bytefile bytefile (onCallLLength rt interpreter)
     else if code = CALL_Lstring then with_bytefile bytefile (onCallLString rt interpreter)
     else if code = CALL_Barray then
       bindF (getNextUnsigned bytefile) (\<lambda>(arg, bytefile).
         with_bytefile bytefile (onCallBArray rt arg interpreter))
     else
       Inr (ERROR, bytefile,
            print_cerr [Str ''unknown opcode '', Num (uint code), Str [CHR 0x0A]] interpreter)))"

section \<open>Example states\<close>

text \<open>
  A stack in the middle of a run: two argument words at slots 52 and 53, the return
  address \<open>0x2A\<close> at slot 51, the top pointer at slot 50. The second state is the same
  with an argument count of \<open>2^30\<close>, as \<open>BEGIN\<close> sets it from an operand of that value.
\<close>

definition frame_example :: Stack where
  "frame_example =
     \<lparr>innerData = (\<lambda>i. if i = 51 then 0x2A else 0), innerDataAddr = 0x8000,
      gc_stack_top = 50, gc_stack_bottom = 99999, bp = 60, nArgs = 2, nLocals = 0,
      begin_ptr = 99996, globalsSize = 3\<rparr>"

definition frame_counterexample :: Stack where
  "frame_counterexample = frame_example\<lparr>nArgs := 0x40000000\<rparr>"

text \<open>
  A runtime whose allocators return the null pointer, an interpreter around a given stack,
  and a stack whose top pointer has reached slot 0 of the array.
\<close>

definition null_runtime :: Runtime where
  "null_runtime =
     \<lparr>Lread = 0, Bstring = (\<lambda>p. 0), Llength = (\<lambda>p. 0), Belem = (\<lambda>p i. 0),
      Bsta = (\<lambda>v i x. v), LtagHash = (\<lambda>p. 1), Btag = (\<lambda>d t n. 1), Lstring = (\<lambda>p. 0),
      Bstring_patt = (\<lambda>x y. 1), Bstring_tag_patt = (\<lambda>x. 1), Barray_tag_patt = (\<lambda>x. 1),
      Bsexp_tag_patt = (\<lambda>x. 1), Bboxed_patt = (\<lambda>x. 1), Bunboxed_patt = (\<lambda>x. 1),
      Bclosure_tag_patt = (\<lambda>x. 1), Barray_patt = (\<lambda>d n. 1),
      alloc_array = (\<lambda>n. 0), alloc_sexp = (\<lambda>n. 0), alloc_closure = (\<lambda>n. 0),
      data_contents = (\<lambda>p. p + 8), sexp_tag = (\<lambda>p. p + 8), sexp_contents = (\<lambda>p. p + 12)\<rparr>"

definition interp_of :: "Stack \<Rightarrow> Interpreter" where
  "interp_of s = \<lparr>isClosure = False, stack = s, heap = (\<lambda>a. 0), cerr = [], cout = []\<rparr>"

definition full_stack :: Stack where
  "full_stack =
     \<lparr>innerData = (\<lambda>i. 1), innerDataAddr = 0x8000,
      gc_stack_top = 0, gc_stack_bottom = 99999, bp = 99995, nArgs = 2, nLocals = 0,
      begin_ptr = 99999, globalsSize = 0\<rparr>"

text \<open>A stack with the two operand words \<open>w1\<close> (on top) and \<open>w2\<close>.\<close>

definition operands :: "usize \<Rightarrow> usize \<Rightarrow> Stack" where
  "operands w1 w2 =
     \<lparr>innerData = (\<lambda>i. if i = 51 then w1 else if i = 52 then w2 else 0), innerDataAddr = 0x8000,
      gc_stack_top = 50, gc_stack_bottom = 99999, bp = 60, nArgs = 2, nLocals = 0,
      begin_ptr = 99996, globalsSize = 3\<rparr>"




text \<open>
  Files. \<open>wrap_file\<close> has 20 bytes and declares a string pool of \<open>0xFFFFFFF5\<close> bytes.
  \<open>bytefile_of code\<close> is the bytefile of the file made of a header of twelve zero bytes
  (no strings, no globals, no public symbols) and the bytecode \<open>code\<close>, loaded at address
  \<open>0x1000\<close>.
\<close>

definition wrap_file :: "u8 list" where
  "wrap_file = [0xF5, 0xFF, 0xFF, 0xFF, 0, 0, 0, 0, 0, 0, 0, 0] @ replicate 8 0"

definition bytefile_of :: "u8 list \<Rightarrow> Bytefile" where
  "bytefile_of code =
     \<lparr>strPool = \<lparr>span_data = 0x100C, span_size = 0\<rparr>,
      publicSymbols = \<lparr>span_data = 0x100C, span_size = 0\<rparr>,
      bytecode = \<lparr>span_data = 0x100C, span_size = word_of_nat (length code)\<rparr>,
      globalAreaSize = 0, ip = 0x100C, fileLine = 0, prevIP = 0,
      rawData = replicate 12 0 @ code, rawAddr = 0x1000\<rparr>"


section \<open>Properties\<close>

subsection \<open>Boxing\<close>

lemma BOX_arith: "BOX n = 2 * n + 1"
proof -
  have "push_bit 1 n OR (1::i32) = push_bit 1 n + 1"
    by (rule disjunctive_add [symmetric]) (auto simp add: bit_simps bit_0 intro: gr0I)
  then show ?thesis
    by (simp add: BOX_def push_bit_eq_mult)
qed

lemma sint_UNBOX: "sint (UNBOX w) = sint w div 2"
  unfolding UNBOX_def by (simp add: sint_signed_drop_bit_eq drop_bit_eq_div)

lemma sint_BOX:
  assumes "- (2 ^ 30) \<le> sint n" and "sint n < 2 ^ 30"
  shows "sint (BOX n) = 2 * sint n + 1"
proof -
  have "2 * n + 1 = (word_of_int (2 * sint n + 1) :: i32)"
    by simp
  then have "sint (2 * n + 1) = signed_take_bit 31 (2 * sint n + 1)"
    by (simp only: sint_sbintrunc') simp
  also have "\<dots> = 2 * sint n + 1"
    using assms by (intro signed_take_bit_int_eq_self) auto
  finally show ?thesis
    by (simp add: BOX_arith)
qed

lemma UNBOX_BOX:
  assumes "- (2 ^ 30) \<le> sint n" and "sint n < 2 ^ 30"
  shows "UNBOX (BOX n) = n"
proof -
  have "sint (UNBOX (BOX n)) = sint n"
    by (simp add: sint_UNBOX sint_BOX [OF assms])
  then show ?thesis
    by (simp only: signed_word_eqI)
qed

lemma BOX_low_bit: "BOX n AND 1 = 1"
  by (simp add: BOX_def bit_eq_iff bit_simps)

text \<open>
  C8. For every integer \<open>n\<close> of the 31-bit signed range, unboxing the boxed \<open>n\<close> gives
  \<open>n\<close> back and the boxed word has its low bit set; unboxing is an arithmetic shift: read
  as signed numbers, the result is the floor of half the argument, so the sign is kept.
\<close>

theorem box_unbox_roundtrip:
  "- (2 ^ 30) \<le> sint n \<and> sint n < 2 ^ 30 \<longrightarrow>
     UNBOX (BOX n) = n \<and> BOX n AND 1 = 1 \<and> sint (UNBOX (BOX n)) = sint n
     \<and> sint (UNBOX w) = sint w div 2"
  by (simp add: UNBOX_BOX BOX_low_bit sint_UNBOX)

theorem box_unbox_roundtrip_witness:
  "- (2 ^ 30) \<le> sint (- 7 :: i32) \<and> sint (- 7 :: i32) < 2 ^ 30
   \<and> UNBOX (BOX (- 7)) = - 7 \<and> BOX (- 7) AND 1 = 1 \<and> sint (UNBOX (BOX (- 7))) = - 7
   \<and> sint (UNBOX (- 13)) = - 7"
  using box_unbox_roundtrip [of "- 7" "- 13"] by simp


subsection \<open>Stack operations inside the array\<close>

lemma push_ok:
  "in_array (gc_stack_top s) \<Longrightarrow>
   push v s = Inr (s\<lparr>innerData := (innerData s)(gc_stack_top s := v),
                      gc_stack_top := gc_stack_top s - 1\<rparr>)"
  by (simp add: push_def write_slot_def)

lemma pop_ok:
  "in_array (gc_stack_top s + 1) \<Longrightarrow>
   pop s = Inr (innerData s (gc_stack_top s + 1), s\<lparr>gc_stack_top := gc_stack_top s + 1\<rparr>)"
  by (simp add: pop_def read_slot_def Let_def)

lemma uint_word_of_int_small:
  "0 \<le> k \<Longrightarrow> k < 2 ^ 32 \<Longrightarrow> uint (word_of_int k :: usize) = k"
  by (simp add: uint_word_of_int take_bit_int_eq_self)

lemma enoughToPop_iff:
  assumes "0 \<le> begin_ptr s - gc_stack_top s" and "begin_ptr s - gc_stack_top s < 2 ^ 32"
  shows "enoughToPop n s = (uint n \<le> begin_ptr s - gc_stack_top s)"
proof -
  have "uint (word_of_int (begin_ptr s - gc_stack_top s) :: usize) = begin_ptr s - gc_stack_top s"
    using assms by (rule uint_word_of_int_small)
  then show ?thesis
    unfolding enoughToPop_def word_le_def by (simp only:)
qed

lemma enoughToPush_iff:
  assumes "0 < gc_stack_top s" and "gc_stack_top s < 2 ^ 32"
  shows "enoughToPush n s = (uint n \<le> 2 ^ 32 - gc_stack_top s)"
proof -
  have "uint (word_of_int (0 - gc_stack_top s) :: usize) = (0 - gc_stack_top s) mod 2 ^ 32"
    by (simp only: uint_word_of_int take_bit_eq_mod) simp
  also have "\<dots> = 2 ^ 32 - gc_stack_top s"
    using assms by (simp add: zmod_zminus1_eq_if)
  finally show ?thesis
    unfolding enoughToPush_def word_le_def by (simp only:)
qed

lemma uint_satAdd:
  assumes "uint a + uint b < 2 ^ 32"
  shows "uint (satAdd a b) = uint a + uint b"
proof -
  have "a \<le> a + b"
    using assms by (simp add: no_olen_add)
  then have "satAdd a b = a + b"
    by (auto simp add: satAdd_def Let_def)
  then show ?thesis
    using assms by (simp add: uint_add_lem [THEN iffD1])
qed

lemma word_ptr_roundtrip:
  assumes "- (2 ^ 29) \<le> p" and "p < 2 ^ 29"
  shows "word_to_ptr s (ptr_to_word s p) = p"
proof -
  have "innerDataAddr s + 4 * word_of_int p - innerDataAddr s = (word_of_int (4 * p) :: usize)"
    by simp
  moreover have "sint (word_of_int (4 * p) :: usize) = 4 * p"
    using assms by (simp only: sint_sbintrunc') (simp add: signed_take_bit_int_eq_self)
  ultimately show ?thesis
    by (simp add: word_to_ptr_def ptr_to_word_def)
qed


lemma sint_small:
  assumes "x < (2 ^ 30 :: u32)"
  shows "sint x = uint x" and "uint x < 2 ^ 30"
proof -
  show u: "uint x < 2 ^ 30"
    using assms by (simp add: word_less_def)
  have lo: "- (2 ^ 31) \<le> uint x"
    by (rule order_trans [OF _ uint_ge_0]) simp
  have "sint (word_of_int (uint x) :: u32) = signed_take_bit 31 (uint x)"
    by (simp only: sint_sbintrunc') simp
  also have "\<dots> = uint x"
    using u lo by (intro signed_take_bit_int_eq_self) simp_all
  finally show "sint x = uint x"
    by simp
qed

lemma UNBOX_BOX_small:
  assumes "x < (2 ^ 30 :: u32)"
  shows "UNBOX (BOX x) = x"
proof -
  have "- (2 ^ 30) \<le> uint x"
    by (rule order_trans [OF _ uint_ge_0]) simp
  then show ?thesis
    using sint_small [OF assms] by (intro UNBOX_BOX) simp_all
qed

lemma push_ok':
  "0 \<le> gc_stack_top s \<Longrightarrow> gc_stack_top s < 100000 \<Longrightarrow>
   push v s = Inr (s\<lparr>innerData := (innerData s)(gc_stack_top s := v),
                      gc_stack_top := gc_stack_top s - 1\<rparr>)"
  by (simp add: push_ok in_array_def MAX_STACK_SIZE_def)

lemma pop_ok':
  "0 \<le> gc_stack_top s + 1 \<Longrightarrow> gc_stack_top s + 1 < 100000 \<Longrightarrow>
   pop s = Inr (innerData s (gc_stack_top s + 1), s\<lparr>gc_stack_top := gc_stack_top s + 1\<rparr>)"
  by (simp add: pop_ok in_array_def MAX_STACK_SIZE_def)

lemma prologue_ok:
  assumes "uint l + 4 \<le> gc_stack_top s" and "gc_stack_top s < MAX_STACK_SIZE"
  shows "prologue b a l s =
           Inr (True, s\<lparr>innerData := (\<lambda>i.
                   if gc_stack_top s - 4 - uint l \<le> i \<and> i < gc_stack_top s - 2 then BOX 0
                   else ((innerData s)(gc_stack_top s := BOX (nArgs s),
                                       gc_stack_top s - 1 := BOX (nLocals s),
                                       gc_stack_top s - 2 := ptr_to_word s (bp s))) i),
                 gc_stack_top := gc_stack_top s - 4 - uint l,
                 bp := gc_stack_top s - 2, nArgs := a, nLocals := l\<rparr>)"
proof -
  obtain L where L: "uint l = L" "0 \<le> L"
    by simp
  have t: "0 < gc_stack_top s" "gc_stack_top s < 2 ^ 32" "uint (4 :: u32) + uint l < 2 ^ 32"
    "uint l + uint (1 :: u32) < 2 ^ 32"
    using assms L unfolding MAX_STACK_SIZE_def by simp_all
  have l1: "uint (l + 1) = L + 1"
    using t(4) uint_add_lem [of l 1] L by simp
  have e: "enoughToPush (satAdd 4 l) s"
    using assms by (simp add: enoughToPush_iff [OF t(1,2)] uint_satAdd [OF t(3)] MAX_STACK_SIZE_def)
  show ?thesis
    using e assms L
    apply (simp add: prologue_def push_ok' fill_slots_def Let_def l1 ptr_to_word_def
          MAX_STACK_SIZE_def cong: if_cong)
    apply (simp add: algebra_simps cong: if_cong)
    done
qed

lemma epilogue_ok:
  assumes "0 \<le> gc_stack_top s + 1" and "gc_stack_top s + 1 < MAX_STACK_SIZE"
    and "0 \<le> bp s"
    and "bp s + 3 + uint (nArgs s) + (if c then 1 else 0) < MAX_STACK_SIZE"
    and "enoughToPop (satAdd (5 + (if c then 1 else 0)) (nArgs s)) s"
  shows "epilogue c s =
           Inr (innerData s (bp s + 3),
                s\<lparr>innerData := (innerData s)
                       (bp s + 3 + uint (nArgs s) + (if c then 1 else 0) := innerData s (gc_stack_top s + 1)),
                  gc_stack_top := bp s + 2 + uint (nArgs s) + (if c then 1 else 0),
                  bp := word_to_ptr s (innerData s (bp s)),
                  nLocals := UNBOX (innerData s (bp s + 1)),
                  nArgs := UNBOX (innerData s (bp s + 2))\<rparr>)"
proof -
  obtain A where A: "uint (nArgs s) = A" "0 \<le> A"
    by simp
  show ?thesis
  proof (cases c)
    case True
    with assms A show ?thesis
      apply (simp add: epilogue_def pop_ok' push_ok' Let_def word_to_ptr_def MAX_STACK_SIZE_def)
      apply (simp add: algebra_simps)
      done
  next
    case False
    with assms A show ?thesis
      apply (simp add: epilogue_def pop_ok' push_ok' Let_def word_to_ptr_def MAX_STACK_SIZE_def)
      apply (simp add: algebra_simps)
      done
  qed
qed

subsection \<open>Call frames\<close>

text \<open>
  C1 (as amended). Take a stack on which \<open>a\<close> argument words and then a return address
  have been pushed (and, for a closure call, the closure pointer under the arguments),
  with room for the frame, and whose \<open>nArgs\<close> and \<open>nLocals\<close> are below \<open>2^30\<close>. Then
  \<open>prologue(_, a, l)\<close> succeeds and \<open>epilogue\<close> after it returns the return address,
  restores \<open>bp\<close>, \<open>nArgs\<close> and \<open>nLocals\<close>, and leaves the stack as before the call except
  that the return address and the \<open>a\<close> argument words (and the closure pointer, when the
  closure flag is set) are consumed and one word, the return value, is pushed in their
  place: every slot above it is unchanged.
\<close>

theorem prologue_then_epilogue:
  assumes room: "uint l + 4 \<le> gc_stack_top s"
    and args: "gc_stack_top s + 1 + uint a + (if c then 1 else 0) \<le> begin_ptr s"
    and inside: "begin_ptr s < MAX_STACK_SIZE" "0 \<le> bp s" "bp s < MAX_STACK_SIZE"
    and small: "nArgs s < 2 ^ 30" "nLocals s < 2 ^ 30"
  shows "\<exists>s1 s2. prologue b a l s = Inr (True, s1)
           \<and> epilogue c s1 = Inr (innerData s (gc_stack_top s + 1), s2)
           \<and> bp s2 = bp s \<and> nArgs s2 = nArgs s \<and> nLocals s2 = nLocals s
           \<and> begin_ptr s2 = begin_ptr s \<and> globalsSize s2 = globalsSize s
           \<and> gc_stack_top s2 = gc_stack_top s + uint a + (if c then 1 else 0)
           \<and> innerData s2 (gc_stack_top s2 + 1) = BOX 0
           \<and> (\<forall>i. gc_stack_top s2 + 1 < i \<longrightarrow> innerData s2 i = innerData s i)"
proof -
  obtain L where L: "uint l = L" "0 \<le> L"
    by simp
  obtain A where A: "uint a = A" "0 \<le> A"
    by simp
  define s1 where "s1 = s\<lparr>innerData := (\<lambda>i.
                   if gc_stack_top s - 4 - uint l \<le> i \<and> i < gc_stack_top s - 2 then BOX 0
                   else ((innerData s)(gc_stack_top s := BOX (nArgs s),
                                       gc_stack_top s - 1 := BOX (nLocals s),
                                       gc_stack_top s - 2 := ptr_to_word s (bp s))) i),
                 gc_stack_top := gc_stack_top s - 4 - uint l,
                 bp := gc_stack_top s - 2, nArgs := a, nLocals := l\<rparr>"
  have top_in: "gc_stack_top s < MAX_STACK_SIZE"
    using args inside A by (simp split: if_splits)
  have p: "prologue b a l s = Inr (True, s1)"
    unfolding s1_def using room top_in by (rule prologue_ok)
  have sel: "gc_stack_top s1 = gc_stack_top s - 4 - L" "bp s1 = gc_stack_top s - 2"
    "nArgs s1 = a" "begin_ptr s1 = begin_ptr s"
    by (simp_all add: s1_def L)
  have diff: "0 \<le> begin_ptr s1 - gc_stack_top s1" "begin_ptr s1 - gc_stack_top s1 < 2 ^ 32"
    using room args inside L A unfolding sel MAX_STACK_SIZE_def by (simp_all split: if_splits)
  have sat: "uint (satAdd (5 + (if c then 1 else 0)) a) = 5 + (if c then 1 else 0) + A"
  proof -
    have "uint (5 + (if c then 1 else 0) :: u32) + uint a < 2 ^ 32"
      using args inside A room L unfolding MAX_STACK_SIZE_def by (simp split: if_splits)
    then show ?thesis
      using A by (simp add: uint_satAdd)
  qed
  have pop_enough: "enoughToPop (satAdd (5 + (if c then 1 else 0)) (nArgs s1)) s1"
    using room args L A unfolding enoughToPop_iff [OF diff] sel sat by (simp split: if_splits)
  define s2 where "s2 = s1\<lparr>innerData := (innerData s1)
                       (bp s1 + 3 + uint (nArgs s1) + (if c then 1 else 0) := innerData s1 (gc_stack_top s1 + 1)),
                  gc_stack_top := bp s1 + 2 + uint (nArgs s1) + (if c then 1 else 0),
                  bp := word_to_ptr s1 (innerData s1 (bp s1)),
                  nLocals := UNBOX (innerData s1 (bp s1 + 1)),
                  nArgs := UNBOX (innerData s1 (bp s1 + 2))\<rparr>"
  have e: "epilogue c s1 = Inr (innerData s1 (bp s1 + 3), s2)"
    unfolding s2_def using room args inside L A pop_enough
    by (intro epilogue_ok) (simp_all add: sel MAX_STACK_SIZE_def split: if_splits)
  have ret: "innerData s1 (bp s1 + 3) = innerData s (gc_stack_top s + 1)"
    using L by (simp add: s1_def add.commute)
  have ptr: "word_to_ptr s1 (ptr_to_word s (bp s)) = bp s"
  proof -
    have "word_to_ptr s (ptr_to_word s (bp s)) = bp s"
      using inside by (intro word_ptr_roundtrip) (simp_all add: MAX_STACK_SIZE_def)
    then show ?thesis
      by (simp add: word_to_ptr_def s1_def)
  qed
  have saved: "innerData s1 (bp s1) = ptr_to_word s (bp s)"
    "innerData s1 (bp s1 + 1) = BOX (nLocals s)" "innerData s1 (bp s1 + 2) = BOX (nArgs s)"
    "innerData s1 (gc_stack_top s1 + 1) = BOX 0"
    using L by (simp_all add: s1_def)
  have regs: "bp s2 = bp s" "nArgs s2 = nArgs s" "nLocals s2 = nLocals s"
    by (simp_all add: s2_def saved ptr UNBOX_BOX_small [OF small(1)] UNBOX_BOX_small [OF small(2)])
  have same: "begin_ptr s2 = begin_ptr s" "globalsSize s2 = globalsSize s"
    by (simp_all add: s2_def s1_def)
  have top2: "gc_stack_top s2 = gc_stack_top s + uint a + (if c then 1 else 0)"
    by (simp add: s2_def sel)
  have rv: "innerData s2 (gc_stack_top s2 + 1) = BOX 0"
    unfolding top2 by (simp add: s2_def saved sel(2,3))
  have above: "\<forall>i. gc_stack_top s2 + 1 < i \<longrightarrow> innerData s2 i = innerData s i"
    unfolding top2 using L A by (simp add: s2_def sel(2,3)) (simp add: s1_def)
  show ?thesis
    using p e ret regs same top2 rv above by (intro exI [of _ s1] exI [of _ s2]) simp
qed


theorem prologue_then_epilogue_witness:
  "uint (1 :: u32) + 4 \<le> gc_stack_top frame_example
   \<and> gc_stack_top frame_example + 1 + uint (2 :: u32) + (if False then 1 else 0) \<le> begin_ptr frame_example
   \<and> nArgs frame_example < 2 ^ 30 \<and> nLocals frame_example < 2 ^ 30
   \<and> (\<exists>s1 s2. prologue False 2 1 frame_example = Inr (True, s1)
          \<and> epilogue False s1 = Inr (0x2A, s2)
          \<and> bp s2 = 60 \<and> nArgs s2 = 2 \<and> nLocals s2 = 0 \<and> gc_stack_top s2 = 52
          \<and> innerData s2 53 = BOX 0)"
  using prologue_then_epilogue [of 1 frame_example 2 False False]
  by (fastforce simp add: frame_example_def MAX_STACK_SIZE_def)

theorem prologue_then_epilogue_counterexample:
  "nArgs frame_counterexample = 0x40000000 \<and> gc_stack_top frame_counterexample = 50
   \<and> bindF (prologue False 1 0 frame_counterexample) (\<lambda>(ok, s1).
         bindF (epilogue True s1) (\<lambda>(r, s2). Inr (ok, r, nArgs s2, gc_stack_top s2)))
       = Inr (True, 0x2A, 0xC0000000, 52)"
  by (simp add: frame_counterexample_def frame_example_def prologue_def epilogue_def push_def
        pop_def write_slot_def read_slot_def in_array_def MAX_STACK_SIZE_def fill_slots_def
        enoughToPush_def enoughToPop_def satAdd_def Let_def BOX_def UNBOX_def
        ptr_to_word_def word_to_ptr_def)


subsection \<open>References to globals\<close>

text \<open>
  C9. \<open>getReference\<close> accepts the global index equal to \<open>globalsSize\<close>, and the address
  it returns for it is \<open>begin + 1 + globalsSize\<close>: for the stack built by the constructor
  (here with two globals) that is slot \<open>MAX_STACK_SIZE\<close>, one past the last slot of the
  array, and loading through it (\<open>LD G(2)\<close>) reads outside the array.
\<close>

theorem getReference_global_past_the_array:
  "bindF (Stack_ctor mem addr 2) (getReference 2 Global) = Inr (Some (SlotRef MAX_STACK_SIZE))
   \<and> \<not> in_array MAX_STACK_SIZE
   \<and> bindF (Stack_ctor mem addr 2) (\<lambda>s. onLoad 2 Global (interp_of s)) = Inl OutOfBounds"
  by (simp add: Stack_ctor_def push_def write_slot_def in_array_def MAX_STACK_SIZE_def Let_def
        getReference_def Global_def onLoad_def interp_of_def enoughToPush_def read_ref_def
        read_slot_def word_le_def)


subsection \<open>Pushes without a check\<close>

text \<open>
  C7. \<open>onSexp\<close> and \<open>onCallBArray\<close> check only that \<open>n\<close> words can be popped; with
  \<open>n = 0\<close> they push their result without asking \<open>enoughToPush\<close>. On a stack whose top
  pointer stands at slot 0 (where \<open>enoughToPush\<close> refuses a push) the first such
  instruction still pushes, and the second writes below slot 0 of the array.
\<close>

theorem sexp_pushes_unchecked:
  "bindF (onSexp rt tag 0 (interp_of full_stack)) (\<lambda>(r, I). onSexp rt tag 0 I) = Inl OutOfBounds
   \<and> bindF (onCallBArray rt 0 (interp_of full_stack)) (\<lambda>(r, I). onCallBArray rt 0 I) = Inl OutOfBounds
   \<and> \<not> enoughToPush 1 full_stack"
  by (simp add: onSexp_def onCallBArray_def interp_of_def full_stack_def enoughToPop_def
        enoughToPush_def push_def write_slot_def in_array_def MAX_STACK_SIZE_def Let_def
        word_le_def)


subsection \<open>A closure that cannot be allocated\<close>

text \<open>
  C10. When there is room to push and \<open>alloc_closure\<close> returns the null pointer,
  \<open>onClosure\<close> writes its diagnostic to the error stream and returns \<open>CONTINUE\<close>; the stack
  is the one it was called with, so no closure value has been pushed.
\<close>

theorem closure_alloc_null_continues:
  assumes "enoughToPush 1 (stack I)" and "alloc_closure rt (span_size args + 1) = 0"
  shows "onClosure rt bf address' args I =
           Inr (CONTINUE, print_cerr [Str ''Cannot allocate memory for closure''] I)
         \<and> stack (print_cerr [Str ''Cannot allocate memory for closure''] I) = stack I"
  using assms by (simp add: onClosure_def print_cerr_def)



theorem closure_alloc_null_continues_witness:
  "enoughToPush 1 (stack (interp_of frame_example))
   \<and> alloc_closure null_runtime (span_size \<lparr>span_data = 0x1015, span_size = 1\<rparr> + 1) = 0
   \<and> onClosure null_runtime (bytefile_of [CLOSURE, 0, 0, 0, 0, 1, 0, 0, 0]) 0
         \<lparr>span_data = 0x1015, span_size = 1\<rparr> (interp_of frame_example) =
       Inr (CONTINUE, (interp_of frame_example)\<lparr>cerr := [Str ''Cannot allocate memory for closure'']\<rparr>)"
  using closure_alloc_null_continues [of "interp_of frame_example" null_runtime
      "\<lparr>span_data = 0x1015, span_size = 1\<rparr>" "bytefile_of [CLOSURE, 0, 0, 0, 0, 1, 0, 0, 0]" 0]
  by (simp add: interp_of_def frame_example_def null_runtime_def enoughToPush_def word_le_def
        print_cerr_def)

subsection \<open>Binary operations\<close>

lemma UNBOX_not_min: "UNBOX w \<noteq> 0x80000000"
proof
  assume "UNBOX w = 0x80000000"
  then have "sint (UNBOX w) = sint (0x80000000 :: i32)"
    by simp
  then have "sint w div 2 = - (2 ^ 31)"
    by (simp add: sint_UNBOX)
  moreover have "- (2 ^ 31) \<le> sint w"
    using sint_ge [of w] by simp
  ultimately show False
    by simp
qed

lemma b2i_cases: "b2i b = 0 \<or> b2i b = 1"
  by (simp add: b2i_def)

lemma b2i_eq_1: "(b2i b = 1) = b"
  by (simp add: b2i_def)

lemma b2i_consts: "b2i False = 0" "b2i True = 1"
  by (simp_all add: b2i_def)

text \<open>
  C4. A \<open>BINOP\<close> executed on a stack that holds at least two words pops the right operand
  first and the left operand second, unboxes both and pushes the boxed result of the
  operation on them, so that the result takes the place of the left operand. The result
  of a comparison or of a logical operator is 0 or 1; \<open>and\<close> and \<open>or\<close> read every non-zero
  operand as true. The divisor of a division or remainder is taken to be non-zero: the
  host traps on a zero divisor and nothing is pushed.
\<close>

theorem binop_pops_and_pushes:
  assumes two: "enoughToPop 2 (stack I)"
    and bounds: "0 \<le> gc_stack_top (stack I) + 1" "gc_stack_top (stack I) + 2 < MAX_STACK_SIZE"
    and rhs: "rhs = UNBOX (innerData (stack I) (gc_stack_top (stack I) + 1))"
    and lhs: "lhs = UNBOX (innerData (stack I) (gc_stack_top (stack I) + 2))"
    and op: "operation \<in> {0x01, 0x02, 0x03, 0x04, 0x05, 0x06, 0x07, 0x08, 0x09, 0x0A, 0x0B, 0x0C, 0x0D}"
    and divisor: "operation = 0x04 \<or> operation = 0x05 \<longrightarrow> rhs \<noteq> 0"
  shows "\<exists>result.
           onBinOp operation I =
             Inr (CONTINUE,
                  I\<lparr>stack := (stack I)\<lparr>innerData := (innerData (stack I))
                                              (gc_stack_top (stack I) + 2 := BOX result),
                                          gc_stack_top := gc_stack_top (stack I) + 1\<rparr>\<rparr>)
           \<and> binop operation lhs rhs = Inr result
           \<and> (operation = 0x01 \<longrightarrow> result = lhs + rhs)
           \<and> (operation = 0x02 \<longrightarrow> result = lhs - rhs)
           \<and> (operation = 0x03 \<longrightarrow> result = lhs * rhs)
           \<and> (operation = 0x04 \<longrightarrow> result = word_of_int (sint lhs sdiv sint rhs))
           \<and> (operation = 0x05 \<longrightarrow> result = word_of_int (sint lhs smod sint rhs))
           \<and> (operation \<in> {0x06, 0x07, 0x08, 0x09, 0x0A, 0x0B, 0x0C, 0x0D} \<longrightarrow> result = 0 \<or> result = 1)
           \<and> (operation = 0x06 \<longrightarrow> (result = 1) = (sint lhs < sint rhs))
           \<and> (operation = 0x07 \<longrightarrow> (result = 1) = (sint lhs \<le> sint rhs))
           \<and> (operation = 0x08 \<longrightarrow> (result = 1) = (sint lhs > sint rhs))
           \<and> (operation = 0x09 \<longrightarrow> (result = 1) = (sint lhs \<ge> sint rhs))
           \<and> (operation = 0x0A \<longrightarrow> (result = 1) = (lhs = rhs))
           \<and> (operation = 0x0B \<longrightarrow> (result = 1) = (lhs \<noteq> rhs))
           \<and> (operation = 0x0C \<longrightarrow> (result = 1) = (lhs \<noteq> 0 \<and> rhs \<noteq> 0))
           \<and> (operation = 0x0D \<longrightarrow> (result = 1) = (lhs \<noteq> 0 \<or> rhs \<noteq> 0))"
proof -
  have lhs_min: "lhs \<noteq> 0x80000000"
    unfolding lhs by (rule UNBOX_not_min)
  obtain result where r: "binop operation lhs rhs = Inr result"
    using op divisor lhs_min
    apply (elim insertE emptyE)
    apply (simp_all add: binop_def)
    done
  have run: "onBinOp operation I =
             Inr (CONTINUE,
                  I\<lparr>stack := (stack I)\<lparr>innerData := (innerData (stack I))
                                              (gc_stack_top (stack I) + 2 := BOX result),
                                          gc_stack_top := gc_stack_top (stack I) + 1\<rparr>\<rparr>)"
  proof -
    have l: "UNBOX (innerData (stack I) (2 + gc_stack_top (stack I))) = lhs"
      by (simp add: lhs add.commute)
    show ?thesis
      using two bounds r
      apply (simp add: onBinOp_def pop_ok' push_ok' Let_def MAX_STACK_SIZE_def rhs [symmetric] l)
      apply (simp add: add.commute)
      done
  qed
  have sem: "(operation = 0x01 \<longrightarrow> result = lhs + rhs)
           \<and> (operation = 0x02 \<longrightarrow> result = lhs - rhs)
           \<and> (operation = 0x03 \<longrightarrow> result = lhs * rhs)
           \<and> (operation = 0x04 \<longrightarrow> result = word_of_int (sint lhs sdiv sint rhs))
           \<and> (operation = 0x05 \<longrightarrow> result = word_of_int (sint lhs smod sint rhs))
           \<and> (operation \<in> {0x06, 0x07, 0x08, 0x09, 0x0A, 0x0B, 0x0C, 0x0D} \<longrightarrow> result = 0 \<or> result = 1)
           \<and> (operation = 0x06 \<longrightarrow> (result = 1) = (sint lhs < sint rhs))
           \<and> (operation = 0x07 \<longrightarrow> (result = 1) = (sint lhs \<le> sint rhs))
           \<and> (operation = 0x08 \<longrightarrow> (result = 1) = (sint lhs > sint rhs))
           \<and> (operation = 0x09 \<longrightarrow> (result = 1) = (sint lhs \<ge> sint rhs))
           \<and> (operation = 0x0A \<longrightarrow> (result = 1) = (lhs = rhs))
           \<and> (operation = 0x0B \<longrightarrow> (result = 1) = (lhs \<noteq> rhs))
           \<and> (operation = 0x0C \<longrightarrow> (result = 1) = (lhs \<noteq> 0 \<and> rhs \<noteq> 0))
           \<and> (operation = 0x0D \<longrightarrow> (result = 1) = (lhs \<noteq> 0 \<or> rhs \<noteq> 0))"
    using op r divisor lhs_min
    apply (elim insertE emptyE)
    apply (simp_all add: binop_def)
    apply (auto simp add: b2i_eq_1 b2i_cases b2i_consts)
    done
  show ?thesis
    by (rule exI [of _ result]) (rule conjI [OF run conjI [OF r sem]])
qed


theorem binop_pops_and_pushes_witness:
  "enoughToPop 2 (stack (interp_of (operands (BOX 2) (BOX (- 7)))))
   \<and> onBinOp 0x04 (interp_of (operands (BOX 2) (BOX (- 7)))) =
       Inr (CONTINUE, interp_of ((operands (BOX 2) (BOX (- 7)))
              \<lparr>innerData := (innerData (operands (BOX 2) (BOX (- 7))))(52 := BOX (- 3)),
               gc_stack_top := 51\<rparr>))"
  using binop_pops_and_pushes [of "interp_of (operands (BOX 2) (BOX (- 7)))" 2 "- 7" "0x04"]
  by (auto simp add: interp_of_def operands_def enoughToPop_def word_le_def MAX_STACK_SIZE_def
        BOX_def UNBOX_def signed_divide_int_def)

subsection \<open>Returning\<close>

lemma byte_at_ip [simp]:
  "byte_at (bf\<lparr>ip := x\<rparr>) p = byte_at bf p"
  "byte_at (bf\<lparr>prevIP := y\<rparr>) p = byte_at bf p"
  "byte_at (bf\<lparr>fileLine := z\<rparr>) p = byte_at bf p"
  by (simp_all add: byte_at_def Let_def cong: if_cong)

lemma read_u32_ip [simp]:
  "read_u32 (bf\<lparr>ip := x\<rparr>) p = read_u32 bf p"
  "read_u32 (bf\<lparr>prevIP := y\<rparr>) p = read_u32 bf p"
  by (simp_all add: read_u32_def)

lemma enoughBytes_prevIP [simp]:
  "enoughBytes n (bf\<lparr>prevIP := y\<rparr>) = enoughBytes n bf"
  "enoughBytes n (bf\<lparr>prevIP := y, ip := x\<rparr>) = enoughBytes n (bf\<lparr>ip := x\<rparr>)"
  by (simp_all add: enoughBytes_def)

lemma address_prevIP [simp]:
  "address (bf\<lparr>prevIP := y\<rparr>) = address bf"
  "address (bf\<lparr>prevIP := y, ip := x\<rparr>) = address (bf\<lparr>ip := x\<rparr>)"
  by (simp_all add: address_def)

lemma call_saves_return_address:
  assumes "uint l + 5 \<le> gc_stack_top s" and "gc_stack_top s < MAX_STACK_SIZE"
  shows "\<exists>s1 s2. push ret s = Inr s1 \<and> prologue b a l s1 = Inr (True, s2)
           \<and> innerData s2 (bp s2 + 3) = ret"
proof -
  obtain L where L: "uint l = L" "0 \<le> L"
    by simp
  define s1 where "s1 = s\<lparr>innerData := (innerData s)(gc_stack_top s := ret),
                           gc_stack_top := gc_stack_top s - 1\<rparr>"
  define s2 where "s2 = s1\<lparr>innerData := (\<lambda>i.
                   if gc_stack_top s1 - 4 - uint l \<le> i \<and> i < gc_stack_top s1 - 2 then BOX 0
                   else ((innerData s1)(gc_stack_top s1 := BOX (nArgs s1),
                                        gc_stack_top s1 - 1 := BOX (nLocals s1),
                                        gc_stack_top s1 - 2 := ptr_to_word s1 (bp s1))) i),
                 gc_stack_top := gc_stack_top s1 - 4 - uint l,
                 bp := gc_stack_top s1 - 2, nArgs := a, nLocals := l\<rparr>"
  have p: "push ret s = Inr s1"
    unfolding s1_def using assms L by (intro push_ok') (simp_all add: MAX_STACK_SIZE_def)
  have "uint l + 4 \<le> gc_stack_top s1" and "gc_stack_top s1 < MAX_STACK_SIZE"
    using assms by (simp_all add: s1_def)
  then have q: "prologue b a l s1 = Inr (True, s2)"
    unfolding s2_def by (rule prologue_ok)
  have r: "innerData s2 (bp s2 + 3) = ret"
    using L by (simp add: s2_def s1_def)
  show ?thesis
    using p q r by blast
qed









subsection \<open>Conditional jumps\<close>

text \<open>
  C6 (as amended). \<open>CJMPz\<close> and \<open>CJMPnz\<close>, executed on a non-empty stack, pop one word
  and unbox it; the target is the operand address when the value is 0 (for \<open>CJMPz\<close>) or
  differs from 0 (for \<open>CJMPnz\<close>), and the address of the next instruction otherwise. The
  target, taken or not, goes through \<open>trySetAddress\<close>: the step continues at it when it is
  below the size of the bytecode, and is an error when it is not, which also happens when
  the jump is not taken and the instruction is the last of the bytecode.
\<close>

theorem cond_jump:
  assumes fetch: "enoughBytes 1 bf = Inr True" "byte_at bf (ip bf) = Inr code"
      "code = CJMPz \<or> code = CJMPnz"
    and operand: "enoughBytes 4 (bf\<lparr>ip := ip bf + 1\<rparr>) = Inr True"
      "read_u32 bf (ip bf + 1) = Inr jumpLocation"
    and fall: "address (bf\<lparr>ip := ip bf + 5\<rparr>) = Inr fallThrough"
    and nonempty: "enoughToPop 1 (stack I)" "0 \<le> gc_stack_top (stack I) + 1"
      "gc_stack_top (stack I) + 1 < MAX_STACK_SIZE"
    and v: "v = UNBOX (innerData (stack I) (gc_stack_top (stack I) + 1))"
    and target: "target = (if (v = 0) = (code = CJMPz) then jumpLocation else fallThrough)"
    and popped: "I' = I\<lparr>stack := (stack I)\<lparr>gc_stack_top := gc_stack_top (stack I) + 1\<rparr>\<rparr>"
  shows "interpretOne rt bf I =
           (if target < span_size (bytecode bf)
            then Inr (CONTINUE, bf\<lparr>prevIP := ip bf, ip := span_data (bytecode bf) + target\<rparr>, I')
            else Inr (ERROR, bf\<lparr>prevIP := ip bf, ip := ip bf + 5\<rparr>,
                      print_cerr [Str ''Cannot jump to address 0x'', Hex (uint target),
                                  Str ('' -- outside bytecode'' @ [CHR 0x0A])] I'))"
proof -
  have five: "ip bf + 1 + 4 = ip bf + 5"
    by simp
  have pop1: "pop (stack I) = Inr (innerData (stack I) (gc_stack_top (stack I) + 1),
                                    (stack I)\<lparr>gc_stack_top := gc_stack_top (stack I) + 1\<rparr>)"
    using nonempty by (simp add: pop_ok' MAX_STACK_SIZE_def)
  have cmp: "(span_size (bytecode bf) \<le> target) = (\<not> target < span_size (bytecode bf))"
    by (simp add: not_less)
  consider (z) "code = CJMPz" | (nz) "code = CJMPnz"
    using fetch(3) by blast
  then show ?thesis
  proof cases
    case z
    have cj: "onCondJump False jumpLocation fallThrough I = Inr (Some target, I')"
      using nonempty(1) by (simp add: onCondJump_def pop1 Let_def v target popped z)
    show ?thesis
      using fetch(1,2) operand fall cj unfolding z
      by (simp add: interpretOne_def checkEnoughBytes_def getNextCode_def getNextUnsigned_def
            five trySetAddr_def trySetAddress_def Let_def cmp)
  next
    case nz
    have cj: "onCondJump True jumpLocation fallThrough I = Inr (Some target, I')"
      using nonempty(1) by (simp add: onCondJump_def pop1 Let_def v target popped nz)
    show ?thesis
      using fetch(1,2) operand fall cj unfolding nz
      by (simp add: interpretOne_def checkEnoughBytes_def getNextCode_def getNextUnsigned_def
            five trySetAddr_def trySetAddress_def Let_def cmp)
  qed
qed


theorem cond_jump_witness:
  "enoughToPop 1 (stack (interp_of (operands (BOX 0) 0)))
   \<and> UNBOX (innerData (operands (BOX 0) 0) 51) = 0
   \<and> interpretOne null_runtime (bytefile_of [CJMPz, 6, 0, 0, 0, DROP, END])
         (interp_of (operands (BOX 0) 0)) =
       Inr (CONTINUE,
            (bytefile_of [CJMPz, 6, 0, 0, 0, DROP, END])\<lparr>prevIP := 0x100C, ip := 0x1012\<rparr>,
            interp_of ((operands (BOX 0) 0)\<lparr>gc_stack_top := 51\<rparr>))"
  using cond_jump [where bf = "bytefile_of [CJMPz, 6, 0, 0, 0, DROP, END]" and code = CJMPz
      and jumpLocation = 6 and fallThrough = 5 and I = "interp_of (operands (BOX 0) 0)"
      and v = 0 and target = 6
      and I' = "interp_of ((operands (BOX 0) 0)\<lparr>gc_stack_top := 51\<rparr>)"
      and rt = null_runtime]
  by (simp add: interp_of_def operands_def bytefile_of_def enoughBytes_def address_def
        byte_at_def read_u32_def le32_def nth_append MAX_STACK_SIZE_def enoughToPop_def
        word_le_def word_less_def BOX_def UNBOX_def)

theorem cond_jump_counterexample:
  "UNBOX (BOX 1) = 1
   \<and> interpretOne null_runtime (bytefile_of [CJMPz, 0, 0, 0, 0]) (interp_of (operands (BOX 1) 0)) =
       Inr (ERROR,
            (bytefile_of [CJMPz, 0, 0, 0, 0])\<lparr>prevIP := 0x100C, ip := 0x1011\<rparr>,
            (interp_of ((operands (BOX 1) 0)\<lparr>gc_stack_top := 51\<rparr>))
              \<lparr>cerr := [Str ''Cannot jump to address 0x'', Hex 5,
                        Str ('' -- outside bytecode'' @ [CHR 0x0A])]\<rparr>)"
  by (simp add: interpretOne_def checkEnoughBytes_def getNextCode_def getNextUnsigned_def
        trySetAddr_def trySetAddress_def onCondJump_def pop_def read_slot_def in_array_def
        interp_of_def operands_def bytefile_of_def enoughBytes_def address_def
        byte_at_def read_u32_def le32_def nth_append MAX_STACK_SIZE_def enoughToPop_def
        word_le_def word_less_def BOX_def UNBOX_def Let_def print_cerr_def)

subsection \<open>Reading a bytefile\<close>

lemma hdr: "le32 (wrap_file ! 0) (wrap_file ! 1) (wrap_file ! 2) (wrap_file ! 3) = 0xFFFFFFF5"
  "le32 (wrap_file ! 4) (wrap_file ! 5) (wrap_file ! 6) (wrap_file ! 7) = 0"
  "le32 (wrap_file ! 8) (wrap_file ! 9) (wrap_file ! 10) (wrap_file ! 11) = 0"
  "int (length wrap_file) = 20"
  by (simp_all add: wrap_file_def le32_def)

text \<open>
  C2. For the 20-byte file \<open>wrap_file\<close>, whose header declares a string pool of
  \<open>0xFFFFFFF5\<close> bytes, the sums of the reader wrap at 32 bits and every check passes:
  \<open>readBytefile\<close> returns a bytefile and no diagnostic. Its string pool view starts at
  offset 12 and is longer than the file, and its bytecode view starts at offset 1, inside
  the header, and overlaps the string pool view.
\<close>

theorem readBytefile_wrapped_string_pool:
  "readBytefile wrap_file 0x1000 =
     Inr (Inr \<lparr>strPool = \<lparr>span_data = 0x100C, span_size = 0xFFFFFFF5\<rparr>,
               publicSymbols = \<lparr>span_data = 0x100C, span_size = 0\<rparr>,
               bytecode = \<lparr>span_data = 0x1001, span_size = 19\<rparr>,
               globalAreaSize = 0, ip = 0x1001, fileLine = 0, prevIP = 0,
               rawData = wrap_file, rawAddr = 0x1000\<rparr>)
   \<and> length wrap_file = 20"
  unfolding readBytefile_def hdr
  apply (simp add: wrap_file_def)
  done



subsection \<open>Operands at the end of the bytecode\<close>

lemma line_file_header:
  "le32 ((replicate 12 0 @ [LINE]) ! 0) ((replicate 12 0 @ [LINE]) ! 1)
        ((replicate 12 0 @ [LINE]) ! 2) ((replicate 12 0 @ [LINE]) ! 3) = 0"
  "le32 ((replicate 12 0 @ [LINE]) ! 4) ((replicate 12 0 @ [LINE]) ! 5)
        ((replicate 12 0 @ [LINE]) ! 6) ((replicate 12 0 @ [LINE]) ! 7) = 0"
  "le32 ((replicate 12 0 @ [LINE]) ! 8) ((replicate 12 0 @ [LINE]) ! 9)
        ((replicate 12 0 @ [LINE]) ! 10) ((replicate 12 0 @ [LINE]) ! 11) = 0"
  by (simp_all add: le32_def nth_append)

lemma line_fetch:
  "enoughBytes 1 (bytefile_of [LINE]) = Inr True"
  "getNextCode (bytefile_of [LINE]) =
     Inr (LINE, (bytefile_of [LINE])\<lparr>prevIP := 0x100C, ip := 0x100D\<rparr>)"
  "getNextUnsigned ((bytefile_of [LINE])\<lparr>prevIP := 0x100C, ip := 0x100D\<rparr>) = Inl OutOfBounds"
  by (simp_all add: bytefile_of_def enoughBytes_def getNextCode_def byte_at_def nth_append
        getNextUnsigned_def read_u32_def)

lemma closure_fetch:
  "map_sum id (\<lambda>(r, bf, I). (r, ip bf, span_data (bytecode bf) + span_size (bytecode bf)))
     (interpretOne null_runtime (bytefile_of [CLOSURE, 0, 0, 0, 0, 1, 0, 0, 0])
        (interp_of frame_example)) = Inr (CONTINUE, 0x101A, 0x1015)"
  by (simp add: interpretOne_def checkEnoughBytes_def getNextCode_def getNextUnsigned_def
        closureArray_def onClosure_def with_bytefile_def null_runtime_def
        interp_of_def frame_example_def bytefile_of_def enoughBytes_def enoughToPush_def
        byte_at_def read_u32_def le32_def nth_append MAX_STACK_SIZE_def
        word_le_def word_less_def Let_def print_cerr_def)

text \<open>
  C3. The bytecode of the first file is the single byte \<open>LINE\<close>, with no operand after it.
  The handler of \<open>LINE\<close> fetches its operand without asking \<open>enoughBytes\<close>: the step
  reads four bytes past the end of the buffer instead of returning a decoder error. The
  bytecode of the second file is a \<open>CLOSURE\<close> that announces one capture descriptor and
  ends before it: \<open>closureArray\<close> moves the instruction pointer over the missing 5 bytes
  unchecked, and (here with an allocator that returns null, so that the descriptor is
  never read) the step continues with the instruction pointer at \<open>0x101A\<close>, past the end
  \<open>0x1015\<close> of the bytecode.
\<close>

theorem operands_fetched_unchecked:
  "readBytefile (replicate 12 0 @ [LINE]) 0x1000 = Inr (Inr (bytefile_of [LINE]))
   \<and> interpretOne rt (bytefile_of [LINE]) I = Inl OutOfBounds
   \<and> map_sum id (\<lambda>(r, bf, I). (r, ip bf, span_data (bytecode bf) + span_size (bytecode bf)))
        (interpretOne null_runtime (bytefile_of [CLOSURE, 0, 0, 0, 0, 1, 0, 0, 0])
           (interp_of frame_example)) = Inr (CONTINUE, 0x101A, 0x1015)"
proof (intro conjI)
  show "readBytefile (replicate 12 0 @ [LINE]) 0x1000 = Inr (Inr (bytefile_of [LINE]))"
    unfolding readBytefile_def line_file_header by (simp add: bytefile_of_def)
  show "interpretOne rt (bytefile_of [LINE]) I = Inl OutOfBounds"
    by (simp add: interpretOne_def checkEnoughBytes_def line_fetch)
qed (rule closure_fetch)

end
